theory Spec2Isabelle
  imports Main "HOL-Library.Sublist"
begin

section \<open>The messenger package: data model\<close>

text \<open>
  The package \<open>messenger\<close> (the messenger of messenger.go, the declarations of the
  adapter interface, and the Pub/Sub adapter) is embedded with explicit state passing. Go's \<open>error\<close> values are a datatype; a \<open>nil\<close> error is \<open>None\<close>.
  \<open>ErrDifferentQueues\<close> and \<open>ErrMissingProject\<close> are package variables, compared by
  identity in Go, so each is a constructor of its own; \<open>ErrorString s\<close> is a fresh
  \<open>errors.New(s)\<close>; \<open>Canceled\<close> and \<open>DeadlineExceeded\<close> are the two errors of package
  \<open>context\<close>; \<open>JSONError\<close> and \<open>BrokerError\<close> stand for the errors of \<open>encoding/json\<close>
  and of the Pub/Sub client.
\<close>

datatype error =
    ErrDifferentQueues
  | ErrMissingProject
  | ErrorString string
  | Canceled
  | DeadlineExceeded
  | JSONError string
  | BrokerError string

text \<open>\<open>type adapterMessage struct { Queue, Identifier, Body string }\<close>\<close>

record adapterMessage =
  Queue :: string
  Identifier :: string
  Body :: string

text \<open>The wire envelope of the Pub/Sub adapter: \<open>pubsubMessage\<close> and \<open>pubsubHeaders\<close>.\<close>

record pubsubHeaders =
  Type :: string

record pubsubMessage =
  Headers :: pubsubHeaders
  mBody :: string

text \<open>What the adapter reads of a \<open>pubsub.Message\<close>: its \<open>ID\<close> and its \<open>Data\<close>.\<close>

record pubsub_Message =
  ID :: string
  Data :: string

text \<open>
  \<open>PubsubConfig\<close>, and \<open>Config\<close> which embeds it. \<open>time.Duration\<close> is a number of
  nanoseconds. The fields \<open>Log\<close> and \<open>Shutdown\<close> of \<open>Config\<close> point to shared objects:
  the shutdown coordinator's state is part of the world below, and calls on the logger
  only write log lines, which the model leaves out.
\<close>

record PubsubConfig =
  Emulator :: string
  Project :: string
  DeadLetterTopic :: string

record Config = PubsubConfig +
  Environment :: string
  RestartTimeout :: int

text \<open>
  \<open>Message\<close> is an interface: the values of type \<open>'m\<close> are the messages of any concrete
  type, and the record below holds what the package calls on them, the two methods
  \<open>Identifier()\<close> and \<open>Queue()\<close>, and \<open>json.Marshal\<close> and \<open>json.Unmarshal\<close> of the standard
  library (\<open>json_Unmarshal body target\<close> decodes \<open>body\<close> into the message \<open>target\<close> and
  gives the populated message).
\<close>

record 'm Message_iface =
  Message_Identifier :: "'m \<Rightarrow> string"
  Message_Queue :: "'m \<Rightarrow> string"
  json_Marshal :: "'m \<Rightarrow> error + string"
  json_Unmarshal :: "string \<Rightarrow> 'm \<Rightarrow> error + 'm"

text \<open>
  \<open>MessageHandler\<close>: \<open>Message()\<close> gives the prototype message, \<open>Handle\<close> the handler's
  verdict on a decoded message. That \<open>Handle\<close> was called, by which handler of the list
  and on which message, is recorded in the trace of the world.
\<close>

record 'm MessageHandler =
  Message :: 'm
  Handle :: "'m \<Rightarrow> error option"

text \<open>\<open>encoding/json\<close> on the wire envelope.\<close>

record encoding_json =
  Marshal_pubsubMessage :: "pubsubMessage \<Rightarrow> error + string"
  Unmarshal_pubsubMessage :: "string \<Rightarrow> error + pubsubMessage"

text \<open>
  The argument of \<open>sub.Update\<close>: the dead-letter policy and the retry policy.
\<close>

record SubscriptionConfigToUpdate =
  DeadLetterPolicy_DeadLetterTopic :: string
  DeadLetterPolicy_MaxDeliveryAttempts :: int
  RetryPolicy_MinimumBackoff :: int
  RetryPolicy_MaximumBackoff :: int

text \<open>
  Everything the package does to its collaborators is an event of the trace, in the order
  of the calls: entering a method of the adapter (with its arguments), each request of
  the Pub/Sub client, \<open>Ack\<close> and \<open>Nack\<close> of a received message, a call of a handler's
  \<open>Handle\<close> (\<open>Handled i msg\<close>: the \<open>i\<close>-th handler of the list, on \<open>msg\<close>), \<open>Add\<close> and
  \<open>Done\<close> of the shutdown coordinator, and \<open>time.Sleep\<close>.
\<close>

datatype 'm event =
    Enter_Dispatch adapterMessage
  | Enter_Subscribe string
  | Topic_Exists string
  | CreateTopic string
  | Subscription_Exists string
  | CreateSubscription string string
  | Subscription_Update string SubscriptionConfigToUpdate
  | Publish string string
  | Receive string
  | Ack string
  | Nack string
  | Handled nat 'm
  | Shutdown_Add
  | Shutdown_Done
  | Sleep int

text \<open>
  The answers of the collaborators are not decided by the package. They are given by the
  environment, as functions of the number of events so far: the answer of an \<open>Exists\<close>
  request, the error of any other request, the messages that one call of \<open>Receive\<close>
  delivers together with the error it returns, and the value of \<open>ctx.Err()\<close>.
\<close>

record environment =
  Exists_answer :: "nat \<Rightarrow> bool \<times> error option"
  error_answer :: "nat \<Rightarrow> error option"
  Receive_answer :: "nat \<Rightarrow> pubsub_Message list \<times> error option"
  ctx_Err_answer :: "nat \<Rightarrow> error option"

text \<open>
  The mutable state: the trace, the memo map \<open>topics\<close> of the \<open>pubsubAdapter\<close> (a topic
  handle is its identifier), the counter of the coordinator's wait group and the number
  of its registered cancel functions, and the clock in nanoseconds.
\<close>

record 'm world =
  trace :: "'m event list"
  topics :: "string \<rightharpoonup> string"
  waitGroup :: int
  cancels :: nat
  now :: int

section \<open>Collaborators\<close>

definition emit :: "'m event \<Rightarrow> 'm world \<Rightarrow> 'm world" where
  "emit e w = w\<lparr>trace := trace w @ [e]\<rparr>"

text \<open>A request whose answer is \<open>(bool, error)\<close>, and one whose answer is an \<open>error\<close>.\<close>

definition request_Exists :: "environment \<Rightarrow> 'm event \<Rightarrow> 'm world \<Rightarrow> (bool \<times> error option) \<times> 'm world" where
  "request_Exists B e w = (Exists_answer B (length (trace w)), emit e w)"

definition request :: "environment \<Rightarrow> 'm event \<Rightarrow> 'm world \<Rightarrow> error option \<times> 'm world" where
  "request B e w = (error_answer B (length (trace w)), emit e w)"

text \<open>
  \<open>sub.Receive(ctx, f)\<close>: the call delivers the messages the environment gives it to \<open>f\<close>,
  one after the other, and returns the error the environment gives it.
\<close>

definition Subscription_Receive ::
  "environment \<Rightarrow> string \<Rightarrow> (pubsub_Message \<Rightarrow> 'm world \<Rightarrow> 'm world) \<Rightarrow> 'm world \<Rightarrow> error option \<times> 'm world" where
  "Subscription_Receive B sub f w =
     (case Receive_answer B (length (trace w)) of
        (msgs, err) \<Rightarrow> (err, fold f msgs (emit (Receive sub) w)))"

text \<open>\<open>ctx.Err()\<close>\<close>

definition ctx_Err :: "environment \<Rightarrow> 'm world \<Rightarrow> error option" where
  "ctx_Err B w = ctx_Err_answer B (length (trace w))"

text \<open>\<open>GracefulShutdown.Add\<close> and \<open>GracefulShutdown.Done\<close> (app package).\<close>

definition GracefulShutdown_Add :: "'m world \<Rightarrow> 'm world" where
  "GracefulShutdown_Add w =
     emit Shutdown_Add (w\<lparr>cancels := Suc (cancels w), waitGroup := waitGroup w + 1\<rparr>)"

definition GracefulShutdown_Done :: "'m world \<Rightarrow> 'm world" where
  "GracefulShutdown_Done w = emit Shutdown_Done (w\<lparr>waitGroup := waitGroup w - 1\<rparr>)"

text \<open>\<open>time.Sleep(d)\<close> pauses for at least \<open>d\<close>; a negative or zero \<open>d\<close> returns at once.\<close>

definition time_Sleep :: "int \<Rightarrow> 'm world \<Rightarrow> 'm world" where
  "time_Sleep d w = emit (Sleep d) (w\<lparr>now := now w + max 0 d\<rparr>)"

text \<open>\<open>Topic.String()\<close>: the fully qualified name of a topic.\<close>

definition Topic_String :: "'a PubsubConfig_scheme \<Rightarrow> string \<Rightarrow> string" where
  "Topic_String c t = ''projects/'' @ Project c @ ''/topics/'' @ t"

section \<open>The Pub/Sub adapter (pubsub.go)\<close>

definition createTopicIfNotExists :: "environment \<Rightarrow> string \<Rightarrow> 'm world \<Rightarrow> error option \<times> 'm world" where
  "createTopicIfNotExists B t w =
     (case request_Exists B (Topic_Exists t) w of
        ((exists, err), w1) \<Rightarrow>
          if exists \<or> err \<noteq> None then (err, w1)
          else request B (CreateTopic t) w1)"

text \<open>
  \<open>topic(queue, create)\<close>: the memoized handle if there is one; otherwise a new handle,
  created at the broker only when \<open>create\<close> is set, and stored in the memo map. The
  mutex around the store orders concurrent stores only, and the model is sequential.
\<close>

definition topic :: "environment \<Rightarrow> string \<Rightarrow> bool \<Rightarrow> 'm world \<Rightarrow> (error + string) \<times> 'm world" where
  "topic B queue create w =
     (case topics w queue of
        Some t \<Rightarrow> (Inr t, w)
      | None \<Rightarrow>
          (if create then
             (case createTopicIfNotExists B queue w of
                (Some err, w1) \<Rightarrow> (Inl err, w1)
              | (None, w1) \<Rightarrow> (Inr queue, w1\<lparr>topics := (topics w1)(queue \<mapsto> queue)\<rparr>))
           else (Inr queue, w\<lparr>topics := (topics w)(queue \<mapsto> queue)\<rparr>)))"

definition createSubscriptionIfNotExists ::
  "environment \<Rightarrow> string \<Rightarrow> string \<Rightarrow> 'm world \<Rightarrow> error option \<times> 'm world" where
  "createSubscriptionIfNotExists B sub t w =
     (case request_Exists B (Subscription_Exists sub) w of
        ((exists, err), w1) \<Rightarrow>
          if exists \<or> err \<noteq> None then (err, w1)
          else request B (CreateSubscription sub t) w1)"

text \<open>
  \<open>subscription(subscription, topic, deadLetterTopic)\<close> returns \<open>(sub, top, err)\<close>. The
  result of \<open>createSubscriptionIfNotExists\<close> is dropped, as in the source. The call for
  the dead-letter topic passes an empty \<open>deadLetterTopic\<close>, which ends the recursion.
\<close>

function subscription ::
  "'a PubsubConfig_scheme \<Rightarrow> environment \<Rightarrow> string \<Rightarrow> string \<Rightarrow> string \<Rightarrow> 'm world
     \<Rightarrow> (error + string \<times> string) \<times> 'm world" where
  "subscription p B sub tname deadLetterTopic w =
     (case topic B tname True w of
        (Inl err, w1) \<Rightarrow> (Inl err, w1)
      | (Inr tp, w1) \<Rightarrow>
          (let w2 = snd (createSubscriptionIfNotExists B sub tp w1) in
           if deadLetterTopic = [] then (Inr (sub, tp), w2)
           else
             (case subscription p B deadLetterTopic deadLetterTopic [] w2 of
                (Inl err, w3) \<Rightarrow> (Inl err, w3)
              | (Inr (dlSub, dlTop), w3) \<Rightarrow>
                  (case request B (Subscription_Update sub
                          \<lparr>DeadLetterPolicy_DeadLetterTopic = Topic_String p dlTop,
                           DeadLetterPolicy_MaxDeliveryAttempts = 5,
                           RetryPolicy_MinimumBackoff = 10 * 1000000000,
                           RetryPolicy_MaximumBackoff = 300 * 1000000000\<rparr>) w3 of
                     (None, w4) \<Rightarrow> (Inr (sub, tp), w4)
                   | (Some err, w4) \<Rightarrow> (Inl err, w4)))))"
  by pat_completeness auto
termination
  by (relation "measure (\<lambda>(p, B, sub, tname, deadLetterTopic, w). length deadLetterTopic)") auto

text \<open>
  The \<open>config\<close> of the adapter that \<open>New\<close> builds for a messenger with the configuration
  \<open>c\<close>: \<open>newPubsubAdapter\<close> gets a copy of the \<open>PubsubConfig\<close> and, when an emulator is
  set and the project is empty, sets the project of its copy to emulator-project. (With
  a project still empty, or a client that cannot be created, \<open>New\<close> ends the process and
  there is no messenger.)
\<close>

definition pubsubAdapter_config :: "'a PubsubConfig_scheme \<Rightarrow> PubsubConfig" where
  "pubsubAdapter_config c =
     \<lparr>Emulator = Emulator c,
      Project = (if Emulator c \<noteq> [] \<and> Project c = [] then ''emulator-project'' else Project c),
      DeadLetterTopic = DeadLetterTopic c\<rparr>"

text \<open>The function passed to \<open>sub.Receive\<close> by \<open>pubsubAdapter.Subscribe\<close>.\<close>

definition receive_callback ::
  "encoding_json \<Rightarrow> string \<Rightarrow> (adapterMessage \<Rightarrow> 'm world \<Rightarrow> error option \<times> 'm world)
     \<Rightarrow> pubsub_Message \<Rightarrow> 'm world \<Rightarrow> 'm world" where
  "receive_callback J queue h msg w =
     (case Unmarshal_pubsubMessage J (Data msg) of
        Inl err \<Rightarrow> emit (Nack (ID msg)) w
      | Inr m \<Rightarrow>
          (case h \<lparr>Queue = queue, Identifier = Type (Headers m), Body = mBody m\<rparr> w of
             (Some err, w1) \<Rightarrow> emit (Nack (ID msg)) w1
           | (None, w1) \<Rightarrow> emit (Ack (ID msg)) w1))"

definition pubsubAdapter_Subscribe ::
  "'a PubsubConfig_scheme \<Rightarrow> encoding_json \<Rightarrow> environment \<Rightarrow> string
     \<Rightarrow> (adapterMessage \<Rightarrow> 'm world \<Rightarrow> error option \<times> 'm world)
     \<Rightarrow> 'm world \<Rightarrow> error option \<times> 'm world" where
  "pubsubAdapter_Subscribe p J B queue h w =
     (case subscription p B queue queue (DeadLetterTopic p) (emit (Enter_Subscribe queue) w) of
        (Inl err, w1) \<Rightarrow> (Some err, w1)
      | (Inr (sub, tp), w1) \<Rightarrow> Subscription_Receive B sub (receive_callback J queue h) w1)"

definition pubsubAdapter_Dispatch ::
  "encoding_json \<Rightarrow> environment \<Rightarrow> adapterMessage \<Rightarrow> 'm world \<Rightarrow> error option \<times> 'm world" where
  "pubsubAdapter_Dispatch J B msg w =
     (case Marshal_pubsubMessage J \<lparr>Headers = \<lparr>Type = Identifier msg\<rparr>, mBody = Body msg\<rparr> of
        Inl err \<Rightarrow> (Some err, emit (Enter_Dispatch msg) w)
      | Inr json \<Rightarrow>
          (case topic B (Queue msg) False (emit (Enter_Dispatch msg) w) of
             (Inl err, w1) \<Rightarrow> (Some err, w1)
           | (Inr t, w1) \<Rightarrow> request B (Publish t json) w1))"

section \<open>The messenger (messenger.go)\<close>

definition prefixQueue :: "'a Config_scheme \<Rightarrow> string \<Rightarrow> string" where
  "prefixQueue m queue = Environment m @ ''.'' @ queue"

definition Dispatch ::
  "'a Config_scheme \<Rightarrow> 'm Message_iface \<Rightarrow> encoding_json \<Rightarrow> environment \<Rightarrow> 'm \<Rightarrow> 'm world
     \<Rightarrow> error option \<times> 'm world" where
  "Dispatch m M J B msg w =
     (case json_Marshal M msg of
        Inl err \<Rightarrow> (Some err, w)
      | Inr json \<Rightarrow>
          pubsubAdapter_Dispatch J B
            \<lparr>Queue = prefixQueue m (Message_Queue M msg),
             Identifier = Message_Identifier M msg,
             Body = json\<rparr> w)"

text \<open>
  The first loop of \<open>Subscribe\<close>, from the value of \<open>queue\<close> so far: \<open>Inl ErrDifferentQueues\<close>
  is the early return, \<open>Inr queue\<close> the value of \<open>queue\<close> when the loop ends.
\<close>

fun Subscribe_queue :: "'m Message_iface \<Rightarrow> string \<Rightarrow> 'm MessageHandler list \<Rightarrow> error + string" where
  "Subscribe_queue M queue [] = Inr queue"
| "Subscribe_queue M queue (handler # h) =
     (if queue = [] then Subscribe_queue M (Message_Queue M (Message handler)) h
      else if queue \<noteq> Message_Queue M (Message handler) then Inl ErrDifferentQueues
      else Subscribe_queue M queue h)"

text \<open>
  The closure \<open>handleMessage\<close> of \<open>Subscribe\<close>: the loop over the handlers, \<open>i\<close> being the
  position of the first handler of \<open>h\<close> in the list given to \<open>Subscribe\<close>.
\<close>

fun handleMessage_from ::
  "'m Message_iface \<Rightarrow> nat \<Rightarrow> 'm MessageHandler list \<Rightarrow> adapterMessage \<Rightarrow> 'm world
     \<Rightarrow> error option \<times> 'm world" where
  "handleMessage_from M i [] a w =
     (Some (ErrorString (''no handler found for message '' @ Identifier a)), w)"
| "handleMessage_from M i (handler # h) a w =
     (if Identifier a = Message_Identifier M (Message handler) then
        (case json_Unmarshal M (Body a) (Message handler) of
           Inl err \<Rightarrow> (Some err, w)
         | Inr msg \<Rightarrow> (Handle handler msg, emit (Handled i msg) w))
      else handleMessage_from M (Suc i) h a w)"

definition handleMessage ::
  "'m Message_iface \<Rightarrow> 'm MessageHandler list \<Rightarrow> adapterMessage \<Rightarrow> 'm world
     \<Rightarrow> error option \<times> 'm world" where
  "handleMessage M h a w = handleMessage_from M 0 h a w"

text \<open>
  \<open>Subscribe\<close> calls itself after an error when \<open>RestartTimeout\<close> is set, without bound:
  the first argument bounds the number of times the body is entered, and \<open>None\<close> says
  that the bound was reached before \<open>Subscribe\<close> returned. The deferred
  \<open>m.Shutdown.Done()\<close> runs on every return after \<open>Add\<close>, also after the inner call.
  The messenger \<open>m\<close> is its \<open>Config\<close>, as \<open>New\<close> stores it; its adapter is the Pub/Sub
  adapter that \<open>New\<close> builds, with the \<open>config\<close> of its own.
\<close>

fun Subscribe ::
  "nat \<Rightarrow> 'a Config_scheme \<Rightarrow> 'm Message_iface \<Rightarrow> encoding_json \<Rightarrow> environment
     \<Rightarrow> 'm MessageHandler list \<Rightarrow> 'm world \<Rightarrow> (error option \<times> 'm world) option" where
  "Subscribe 0 m M J B h w = None"
| "Subscribe (Suc n) m M J B h w =
     (case Subscribe_queue M [] h of
        Inl err \<Rightarrow> Some (Some err, w)
      | Inr queue \<Rightarrow>
          (case pubsubAdapter_Subscribe (pubsubAdapter_config m) J B (prefixQueue m queue)
                  (handleMessage M h) (GracefulShutdown_Add w) of
             (err, w1) \<Rightarrow>
               if err = None \<or> err = ctx_Err B w1 then Some (None, GracefulShutdown_Done w1)
               else if RestartTimeout m = 0 then Some (err, GracefulShutdown_Done w1)
               else
                 (case Subscribe n m M J B h (time_Sleep (RestartTimeout m) w1) of
                    None \<Rightarrow> None
                  | Some (r, w2) \<Rightarrow> Some (r, GracefulShutdown_Done w2))))"

section \<open>The webhook message (webhook.go)\<close>

text \<open>
  \<open>WebhookPayload\<close> and \<open>message\<close>. A value of the map \<open>Data\<close> is kept as the JSON text
  that encodes it, and \<open>None\<close> is the nil map; a nil and an empty \<open>Headers\<close> map are both
  the empty list.
\<close>

record WebhookPayload =
  WebhookPayload_Type :: string
  WebhookPayload_Data :: "(string \<times> string) list option"

record webhook_message =
  message_Headers :: "(string \<times> string) list"
  message_Payload :: WebhookPayload
  message_RawPayload :: string

text \<open>
  \<open>encoding/json\<close> on these types: \<open>json.Marshal\<close> of a \<open>message\<close> (\<open>Headers\<close> and
  \<open>RawPayload\<close> are tagged to be left out), \<open>json.Unmarshal\<close> into the struct \<open>body\<close> of
  \<open>UnmarshalJSON\<close>, which gives its \<open>Headers\<close> and its \<open>Payload\<close>, a string, and
  \<open>json.Unmarshal\<close> into a \<open>WebhookPayload\<close>.
\<close>

record webhook_json =
  Marshal_message :: "webhook_message \<Rightarrow> error + string"
  Unmarshal_body :: "string \<Rightarrow> error + (string \<times> string) list \<times> string"
  Unmarshal_WebhookPayload :: "string \<Rightarrow> WebhookPayload \<Rightarrow> error + WebhookPayload"

text \<open>
  \<open>message.UnmarshalJSON\<close>, which \<open>json.Unmarshal\<close> calls on a \<open>message\<close>: the outer
  object is decoded into \<open>body\<close>, and the payload, which must be a string there, is
  decoded into \<open>m.Payload\<close>.
\<close>

definition message_UnmarshalJSON ::
  "webhook_json \<Rightarrow> string \<Rightarrow> webhook_message \<Rightarrow> error + webhook_message" where
  "message_UnmarshalJSON L data m =
     (case Unmarshal_body L data of
        Inl err \<Rightarrow> Inl err
      | Inr (headers, payload) \<Rightarrow>
          (case Unmarshal_WebhookPayload L payload (message_Payload m) of
             Inl err \<Rightarrow> Inl err
           | Inr p \<Rightarrow>
               Inr \<lparr>message_Headers = headers, message_Payload = p,
                    message_RawPayload = payload\<rparr>))"

text \<open>The methods \<open>Identifier\<close> and \<open>Queue\<close> of \<open>message\<close>, and its JSON encoding.\<close>

definition webhook_Message :: "webhook_json \<Rightarrow> webhook_message Message_iface" where
  "webhook_Message L =
     \<lparr>Message_Identifier = (\<lambda>m. ''webhook''),
      Message_Queue = (\<lambda>m. ''bootstrap-go-service.webhook''),
      json_Marshal = Marshal_message L,
      json_Unmarshal = message_UnmarshalJSON L\<rparr>"

text \<open>
  \<open>Processor\<close>, and the handler of \<open>NewHandler\<close>: \<open>Message()\<close> gives a new, zero
  \<open>message\<close>, and \<open>Handle\<close> gives the message to the first processor that supports the
  type of its payload, or returns \<open>nil\<close> when there is none.
\<close>

record Processor =
  Supports :: "string \<Rightarrow> bool"
  Process :: "webhook_message \<Rightarrow> error option"

fun handler_Handle :: "Processor list \<Rightarrow> webhook_message \<Rightarrow> error option" where
  "handler_Handle [] msg = None"
| "handler_Handle (processor # processors) msg =
     (if Supports processor (WebhookPayload_Type (message_Payload msg))
      then Process processor msg
      else handler_Handle processors msg)"

definition NewHandler :: "Processor list \<Rightarrow> webhook_message MessageHandler" where
  "NewHandler processors =
     \<lparr>Message =
        \<lparr>message_Headers = [],
         message_Payload = \<lparr>WebhookPayload_Type = [], WebhookPayload_Data = None\<rparr>,
         message_RawPayload = []\<rparr>,
      Handle = handler_Handle processors\<rparr>"

section \<open>Vocabulary of the properties\<close>

text \<open>
  The names of broker resources (topics and subscriptions) that an event mentions. The
  dead-letter topic inside the argument of \<open>sub.Update\<close> is a fully qualified name, not
  a queue name, and is not listed.
\<close>

fun queue_names :: "'m event \<Rightarrow> string set" where
  "queue_names (Enter_Dispatch a) = {Queue a}"
| "queue_names (Enter_Subscribe q) = {q}"
| "queue_names (Topic_Exists t) = {t}"
| "queue_names (CreateTopic t) = {t}"
| "queue_names (Subscription_Exists s) = {s}"
| "queue_names (CreateSubscription s t) = {s, t}"
| "queue_names (Subscription_Update s c) = {s}"
| "queue_names (Publish t d) = {t}"
| "queue_names (Receive s) = {s}"
| "queue_names (Ack i) = {}"
| "queue_names (Nack i) = {}"
| "queue_names (Handled i msg) = {}"
| "queue_names Shutdown_Add = {}"
| "queue_names Shutdown_Done = {}"
| "queue_names (Sleep d) = {}"

text \<open>
  The memo map of the adapter only ever receives \<open>p.topics[queue] = p.client.Topic(queue)\<close>:
  the handle stored for a queue is the handle of that queue.
\<close>

definition memo_ok :: "'m world \<Rightarrow> bool" where
  "memo_ok w \<longleftrightarrow> (\<forall>q t. topics w q = Some t \<longrightarrow> t = q)"

text \<open>
  \<open>named S w w'\<close>: the world \<open>w'\<close> comes from \<open>w\<close> by more events, which mention resource
  names of \<open>S\<close> only, and its memo map is as it should be.
\<close>

definition named :: "string set \<Rightarrow> 'm world \<Rightarrow> 'm world \<Rightarrow> bool" where
  "named S w w' \<longleftrightarrow>
     memo_ok w' \<and> (\<exists>evs. trace w' = trace w @ evs \<and> (\<forall>e\<in>set evs. queue_names e \<subseteq> S))"

text \<open>
  The call \<open>m.adapter.Subscribe(queue, handleMessage, ctx)\<close> made by \<open>Subscribe\<close>, for
  the handlers \<open>h\<close> and the queue \<open>queue\<close> that the first loop ended with.
\<close>

abbreviation adapter_Subscribe_call ::
  "'a Config_scheme \<Rightarrow> 'm Message_iface \<Rightarrow> encoding_json \<Rightarrow> environment
     \<Rightarrow> 'm MessageHandler list \<Rightarrow> string \<Rightarrow> 'm world \<Rightarrow> error option \<times> 'm world" where
  "adapter_Subscribe_call m M J B h queue w \<equiv>
     pubsubAdapter_Subscribe (pubsubAdapter_config m) J B (prefixQueue m queue)
       (handleMessage M h) (GracefulShutdown_Add w)"

text \<open>
  What \<open>Subscribe\<close> does with the result of that call: it returns \<open>nil\<close> when the
  adapter returned \<open>nil\<close> or the error of the context, the adapter's error when no
  restart timeout is set, and otherwise what it returns itself, called again with the
  same handlers after the sleep; always after \<open>Done\<close> of the shutdown coordinator.
\<close>

abbreviation Subscribe_after ::
  "nat \<Rightarrow> 'a Config_scheme \<Rightarrow> 'm Message_iface \<Rightarrow> encoding_json \<Rightarrow> environment
     \<Rightarrow> 'm MessageHandler list \<Rightarrow> error option \<times> 'm world
     \<Rightarrow> (error option \<times> 'm world) option" where
  "Subscribe_after n m M J B h res \<equiv>
     (case res of
        (err, w1) \<Rightarrow>
          if err = None \<or> err = ctx_Err B w1 then Some (None, GracefulShutdown_Done w1)
          else if RestartTimeout m = 0 then Some (err, GracefulShutdown_Done w1)
          else map_option (apsnd GracefulShutdown_Done)
                 (Subscribe n m M J B h (time_Sleep (RestartTimeout m) w1)))"

section \<open>Example inputs\<close>

text \<open>
  A message type for the examples: a message is a triple of its identifier, its queue
  and its payload, and its JSON encoding is the payload.
\<close>

definition example_Message :: "(string \<times> string \<times> string) Message_iface" where
  "example_Message =
     \<lparr>Message_Identifier = (\<lambda>msg. fst msg),
      Message_Queue = (\<lambda>msg. fst (snd msg)),
      json_Marshal = (\<lambda>msg. Inr (snd (snd msg))),
      json_Unmarshal = (\<lambda>body target. Inr (fst target, fst (snd target), body))\<rparr>"

text \<open>A handler for the identifier and the queue given, whose \<open>Handle\<close> returns \<open>verdict\<close>.\<close>

definition example_handler ::
  "string \<Rightarrow> string \<Rightarrow> error option \<Rightarrow> (string \<times> string \<times> string) MessageHandler" where
  "example_handler identifier queue verdict =
     \<lparr>Message = (identifier, queue, []), Handle = (\<lambda>msg. verdict)\<rparr>"

text \<open>
  An envelope encoding for the examples: the type, a colon, the body. A text without a
  colon does not decode.
\<close>

definition example_json :: encoding_json where
  "example_json =
     \<lparr>Marshal_pubsubMessage = (\<lambda>m. Inr (Type (Headers m) @ '':'' @ mBody m)),
      Unmarshal_pubsubMessage = (\<lambda>s.
         if CHR '':'' \<in> set s
         then Inr \<lparr>Headers = \<lparr>Type = takeWhile (\<lambda>c. c \<noteq> CHR '':'') s\<rparr>,
                   mBody = tl (dropWhile (\<lambda>c. c \<noteq> CHR '':'') s)\<rparr>
         else Inl (JSONError ''invalid envelope''))\<rparr>"

text \<open>
  A broker for the examples: no topic and no subscription exists, no request fails,
  \<open>Receive\<close> delivers nothing and returns \<open>nil\<close>, and the context is never cancelled.
\<close>

definition fresh_broker :: environment where
  "fresh_broker =
     \<lparr>Exists_answer = (\<lambda>n. (False, None)),
      error_answer = (\<lambda>n. None),
      Receive_answer = (\<lambda>n. ([], None)),
      ctx_Err_answer = (\<lambda>n. None)\<rparr>"

text \<open>The same broker, except that the fifth request fails.\<close>

definition refusing_broker :: environment where
  "refusing_broker =
     fresh_broker\<lparr>error_answer :=
       (\<lambda>n. if n = 4 then Some (BrokerError ''permission denied'') else None)\<rparr>"

text \<open>
  The same broker, except that the context is cancelled and \<open>Receive\<close> returns the
  context's error.
\<close>

definition cancelled_broker :: environment where
  "cancelled_broker =
     fresh_broker\<lparr>Receive_answer := (\<lambda>n. ([], Some Canceled)),
                  ctx_Err_answer := (\<lambda>n. Some Canceled)\<rparr>"

text \<open>The same broker, except that a \<open>Receive\<close> among the first twelve events fails.\<close>

definition flaky_broker :: environment where
  "flaky_broker =
     fresh_broker\<lparr>Receive_answer :=
       (\<lambda>n. if n < 12 then ([], Some (BrokerError ''unavailable'')) else ([], None))\<rparr>"

definition example_config :: Config where
  "example_config =
     \<lparr>Emulator = [], Project = ''project'', DeadLetterTopic = ''dev.dead-letter'',
      Environment = ''dev'', RestartTimeout = 0\<rparr>"

definition example_world :: "(string \<times> string \<times> string) world" where
  "example_world = \<lparr>trace = [], topics = Map.empty, waitGroup = 0, cancels = 0, now = 0\<rparr>"

text \<open>
  A webhook message of the type order.created with no data, and the answers of
  \<open>encoding/json\<close> for it: its encoding, which has the payload as an object, and the
  decoding of that encoding into the struct \<open>body\<close>, which fails, since the payload is
  not a string there.
\<close>

definition order_created :: webhook_message where
  "order_created =
     \<lparr>message_Headers = [],
      message_Payload = \<lparr>WebhookPayload_Type = ''order.created'', WebhookPayload_Data = None\<rparr>,
      message_RawPayload = []\<rparr>"

definition webhook_answers :: webhook_json where
  "webhook_answers =
     \<lparr>Marshal_message = (\<lambda>m.
         Inr (''{\"payload\":{\"type\":\"'' @ WebhookPayload_Type (message_Payload m) @
              ''\",\"data\":null}}'')),
      Unmarshal_body = (\<lambda>data.
         if data = ''{\"payload\":{\"type\":\"order.created\",\"data\":null}}''
         then Inl (JSONError
           ''json: cannot unmarshal object into Go struct field .payload of type string'')
         else Inl (JSONError ''no answer in the example'')),
      Unmarshal_WebhookPayload = (\<lambda>data p. Inl (JSONError ''no answer in the example''))\<rparr>"

definition webhook_world :: "webhook_message world" where
  "webhook_world = \<lparr>trace = [], topics = Map.empty, waitGroup = 0, cancels = 0, now = 0\<rparr>"


section \<open>Unfolding the adapter\<close>

declare subscription.simps [simp del]

lemma subscription_Nil:
  "subscription p B sub tname [] w =
     (case topic B tname True w of
        (Inl err, w1) \<Rightarrow> (Inl err, w1)
      | (Inr tp, w1) \<Rightarrow> (Inr (sub, tp), snd (createSubscriptionIfNotExists B sub tp w1)))"
  by (subst subscription.simps) (simp split: prod.splits sum.splits)

lemma subscription_Cons:
  "dl \<noteq> [] \<Longrightarrow> subscription p B sub tname dl w =
     (case subscription p B sub tname [] w of
        (Inl err, w2) \<Rightarrow> (Inl err, w2)
      | (Inr (s, tp), w2) \<Rightarrow>
          (case subscription p B dl dl [] w2 of
             (Inl err, w3) \<Rightarrow> (Inl err, w3)
           | (Inr (dlSub, dlTop), w3) \<Rightarrow>
               (case request B (Subscription_Update sub
                       \<lparr>DeadLetterPolicy_DeadLetterTopic = Topic_String p dlTop,
                        DeadLetterPolicy_MaxDeliveryAttempts = 5,
                        RetryPolicy_MinimumBackoff = 10 * 1000000000,
                        RetryPolicy_MaximumBackoff = 300 * 1000000000\<rparr>) w3 of
                  (None, w4) \<Rightarrow> (Inr (sub, tp), w4)
                | (Some err, w4) \<Rightarrow> (Inl err, w4))))"
  by (subst subscription.simps) (simp add: subscription_Nil split: prod.splits sum.splits)

section \<open>The trace only grows\<close>

lemma prefix_emit: "prefix (trace w) (trace (emit e w))"
  by (simp add: emit_def)

lemma prefix_request: "prefix (trace w) (trace (snd (request B e w)))"
  by (simp add: request_def emit_def)

lemma prefix_request_Exists: "prefix (trace w) (trace (snd (request_Exists B e w)))"
  by (simp add: request_Exists_def emit_def)

lemma prefix_createTopicIfNotExists:
  "prefix (trace w) (trace (snd (createTopicIfNotExists B t w)))"
  by (auto simp: createTopicIfNotExists_def request_def request_Exists_def emit_def prefix_def
      split: prod.splits)

lemma prefix_createSubscriptionIfNotExists:
  "prefix (trace w) (trace (snd (createSubscriptionIfNotExists B sub t w)))"
  by (auto simp: createSubscriptionIfNotExists_def request_def request_Exists_def emit_def
      prefix_def split: prod.splits)

lemma prefix_topic: "prefix (trace w) (trace (snd (topic B queue create w)))"
  using prefix_createTopicIfNotExists [of w B queue]
  by (auto simp: topic_def split: option.splits prod.splits)

lemma prefix_subscription_Nil:
  "prefix (trace w) (trace (snd (subscription p B sub tname [] w)))"
proof (cases "topic B tname True w")
  case (Pair r w1)
  with prefix_topic [of w B tname True] have 1: "prefix (trace w) (trace w1)" by simp
  show ?thesis
  proof (cases r)
    case (Inl err)
    with Pair 1 show ?thesis by (simp add: subscription_Nil)
  next
    case (Inr tp)
    with Pair have "snd (subscription p B sub tname [] w) =
        snd (createSubscriptionIfNotExists B sub tp w1)"
      by (simp add: subscription_Nil)
    with 1 prefix_createSubscriptionIfNotExists [of w1 B sub tp] show ?thesis
      by (metis prefix_order.trans)
  qed
qed

lemma prefix_subscription:
  "prefix (trace w) (trace (snd (subscription p B sub tname dl w)))"
proof (cases "dl = []")
  case True
  then show ?thesis by (simp add: prefix_subscription_Nil)
next
  case False
  obtain r2 w2 where 2: "subscription p B sub tname [] w = (r2, w2)" by (cases "subscription p B sub tname [] w")
  with prefix_subscription_Nil [of w p B sub tname] have p2: "prefix (trace w) (trace w2)" by simp
  obtain r3 w3 where 3: "subscription p B dl dl [] w2 = (r3, w3)" by (cases "subscription p B dl dl [] w2")
  with prefix_subscription_Nil [of w2 p B dl dl] have "prefix (trace w2) (trace w3)" by simp
  with p2 have p3: "prefix (trace w) (trace w3)" by (rule prefix_order.trans)
  have p4: "prefix (trace w) (trace w4)" if "request B e w3 = (x, w4)" for e x w4
    using p3 prefix_request [of w3 B e] that by (metis prefix_order.trans snd_conv)
  show ?thesis
    using False 2 3 p2 p3 p4
    by (auto simp: subscription_Cons split: sum.splits prod.splits option.splits)
qed

lemma prefix_handleMessage_from:
  "prefix (trace w) (trace (snd (handleMessage_from M i h a w)))"
  by (induction h arbitrary: i) (auto simp: emit_def split: sum.splits)

lemma prefix_receive_callback:
  "prefix (trace w) (trace (receive_callback J queue (handleMessage M h) msg w))"
proof -
  have "prefix (trace w) (trace (emit e (snd (handleMessage M h a w))))" for e a
    using prefix_handleMessage_from [of w M 0 h a] prefix_emit
    unfolding handleMessage_def by (metis prefix_order.trans)
  then show ?thesis
    by (auto simp: receive_callback_def prefix_emit split: sum.splits prod.splits option.splits)
      (metis snd_conv)+
qed

lemma prefix_fold_receive_callback:
  "prefix (trace w) (trace (fold (receive_callback J queue (handleMessage M h)) msgs w))"
proof (induction msgs arbitrary: w)
  case Nil
  show ?case by simp
next
  case (Cons msg msgs)
  from prefix_receive_callback Cons.IH show ?case
    by (simp del: prefix_order.dual_order.refl) (rule prefix_order.trans)
qed

lemma prefix_pubsubAdapter_Subscribe:
  "prefix (trace w @ [Enter_Subscribe queue])
     (trace (snd (pubsubAdapter_Subscribe p J B queue (handleMessage M h) w)))"
proof -
  let ?w0 = "emit (Enter_Subscribe queue) w"
  obtain r w1 where 1: "subscription p B queue queue (DeadLetterTopic p) ?w0 = (r, w1)"
    by (cases "subscription p B queue queue (DeadLetterTopic p) ?w0")
  with prefix_subscription [of ?w0 p B queue queue "DeadLetterTopic p"]
  have p1: "prefix (trace w @ [Enter_Subscribe queue]) (trace w1)" by (simp add: emit_def)
  have "prefix (trace w @ [Enter_Subscribe queue])
      (trace (fold (receive_callback J queue (handleMessage M h)) msgs (emit (Receive sub) w1)))"
    for msgs sub
    using p1 prefix_emit [of w1] prefix_fold_receive_callback
    by (metis prefix_order.trans)
  with 1 p1 show ?thesis
    by (auto simp: pubsubAdapter_Subscribe_def Subscription_Receive_def
        split: sum.splits prod.splits)
qed

lemma prefix_Subscribe:
  "Subscribe_queue M [] h = Inr queue \<Longrightarrow> Subscribe n m M J B h w = Some (r, w') \<Longrightarrow>
   prefix (trace w @ [Shutdown_Add, Enter_Subscribe (prefixQueue m queue)]) (trace w')"
proof (induction n arbitrary: w r w')
  case 0
  then show ?case by simp
next
  case (Suc n)
  let ?w0 = "GracefulShutdown_Add w"
  let ?pre = "trace w @ [Shutdown_Add, Enter_Subscribe (prefixQueue m queue)]"
  obtain err w1 where 1: "adapter_Subscribe_call m M J B h queue w = (err, w1)"
    by (cases "adapter_Subscribe_call m M J B h queue w")
  with prefix_pubsubAdapter_Subscribe [of ?w0 "prefixQueue m queue" "pubsubAdapter_config m"
      J B M h]
  have p1: "prefix ?pre (trace w1)"
    by (simp add: GracefulShutdown_Add_def emit_def)
  then have pd: "prefix ?pre (trace (GracefulShutdown_Done w1))"
    by (auto simp: GracefulShutdown_Done_def emit_def prefix_def)
  show ?case
  proof (cases "err = None \<or> err = ctx_Err B w1 \<or> RestartTimeout m = 0")
    case True
    with Suc.prems 1 pd show ?thesis by (auto split: if_splits)
  next
    case False
    with Suc.prems 1 obtain w2 where
      2: "Subscribe n m M J B h (time_Sleep (RestartTimeout m) w1) = Some (r, w2)"
      and w': "w' = GracefulShutdown_Done w2"
      by (auto split: option.splits)
    from Suc.IH [OF Suc.prems(1) 2]
    have "prefix (trace (time_Sleep (RestartTimeout m) w1)) (trace w2)"
      by (auto simp: prefix_def)
    moreover have "prefix (trace w1) (trace (time_Sleep (RestartTimeout m) w1))"
      by (simp add: time_Sleep_def emit_def)
    ultimately have "prefix ?pre (trace w2)"
      using p1 by (metis prefix_order.trans)
    with w' show ?thesis
      by (auto simp: GracefulShutdown_Done_def emit_def prefix_def)
  qed
qed

section \<open>Evaluation\<close>

lemmas collaborator_defs = emit_def request_def request_Exists_def Subscription_Receive_def
  ctx_Err_def GracefulShutdown_Add_def GracefulShutdown_Done_def time_Sleep_def Topic_String_def

lemmas adapter_defs = createTopicIfNotExists_def topic_def createSubscriptionIfNotExists_def
  receive_callback_def pubsubAdapter_Subscribe_def pubsubAdapter_Dispatch_def subscription_Nil
  subscription_Cons pubsubAdapter_config_def

lemmas example_defs = example_Message_def example_handler_def example_json_def fresh_broker_def
  example_config_def example_world_def

section \<open>The dispatch closure\<close>

lemma handleMessage_from_shape:
  "\<exists>evs. snd (handleMessage_from M i h a w) = w\<lparr>trace := trace w @ evs\<rparr> \<and> length evs \<le> 1 \<and>
     (\<forall>e\<in>set evs. \<exists>j msg. e = Handled (i + j) msg \<and> j < length h \<and>
         Message_Identifier M (Message (h ! j)) = Identifier a)"
proof (induction h arbitrary: i)
  case Nil
  show ?case by (rule exI [of _ "[]"]) simp
next
  case (Cons handler h)
  show ?case
  proof (cases "Identifier a = Message_Identifier M (Message handler)")
    case True
    show ?thesis
    proof (cases "json_Unmarshal M (Body a) (Message handler)")
      case (Inl err)
      with True show ?thesis by (intro exI [of _ "[]"]) simp
    next
      case (Inr msg)
      with True show ?thesis
        by (intro exI [of _ "[Handled i msg]"]) (simp add: emit_def)
    qed
  next
    case False
    from Cons.IH [of "Suc i"] obtain evs where
      evs: "snd (handleMessage_from M (Suc i) h a w) = w\<lparr>trace := trace w @ evs\<rparr>"
        "length evs \<le> 1"
        "\<forall>e\<in>set evs. \<exists>j msg. e = Handled (Suc i + j) msg \<and> j < length h \<and>
           Message_Identifier M (Message (h ! j)) = Identifier a"
      by blast
    have "\<forall>e\<in>set evs. \<exists>j msg. e = Handled (i + j) msg \<and> j < length (handler # h) \<and>
           Message_Identifier M (Message ((handler # h) ! j)) = Identifier a"
    proof
      fix e assume "e \<in> set evs"
      with evs(3) obtain j msg where "e = Handled (Suc i + j) msg" "j < length h"
        "Message_Identifier M (Message (h ! j)) = Identifier a" by blast
      then show "\<exists>j msg. e = Handled (i + j) msg \<and> j < length (handler # h) \<and>
           Message_Identifier M (Message ((handler # h) ! j)) = Identifier a"
        by (intro exI [of _ "Suc j"] exI [of _ msg]) simp
    qed
    with evs(1,2) False show ?thesis by (intro exI [of _ evs]) simp
  qed
qed

lemma handleMessage_from_no_match:
  "\<forall>handler\<in>set h. Message_Identifier M (Message handler) \<noteq> Identifier a \<Longrightarrow>
   handleMessage_from M i h a w =
     (Some (ErrorString (''no handler found for message '' @ Identifier a)), w)"
  by (induction h arbitrary: i) auto

lemma handleMessage_from_first_match:
  "j < length h \<Longrightarrow> Message_Identifier M (Message (h ! j)) = Identifier a \<Longrightarrow>
   \<forall>k<j. Message_Identifier M (Message (h ! k)) \<noteq> Identifier a \<Longrightarrow>
   handleMessage_from M i h a w =
     (case json_Unmarshal M (Body a) (Message (h ! j)) of
        Inl err \<Rightarrow> (Some err, w)
      | Inr msg \<Rightarrow> (Handle (h ! j) msg, emit (Handled (i + j) msg) w))"
proof (induction h arbitrary: i j)
  case Nil
  then show ?case by simp
next
  case (Cons handler h)
  show ?case
  proof (cases j)
    case 0
    with Cons.prems show ?thesis by (simp split: sum.splits)
  next
    case (Suc j')
    from Cons.prems(3) Suc have ne: "Message_Identifier M (Message handler) \<noteq> Identifier a"
      by (metis nth_Cons_0 zero_less_Suc)
    have "\<forall>k<j'. Message_Identifier M (Message (h ! k)) \<noteq> Identifier a"
      using Cons.prems(3) Suc by (metis Suc_less_eq nth_Cons_Suc)
    with Cons.IH [of j' "Suc i"] Cons.prems(1,2) Suc ne show ?thesis
      by (auto split: sum.splits)
  qed
qed

text \<open>
  C6 (routing correctness). The dispatch closure changes the world by at most one event,
  a call of \<open>Handle\<close> on a handler of the list whose prototype has the identifier of the
  envelope. When the first handler with that identifier is the \<open>j\<close>-th, it is that one
  which is called (unless the body does not decode, and then none is). When no handler
  has the identifier, the closure returns the error "no handler found for message" and
  leaves the world as it was: no \<open>Handle\<close> is called.
\<close>

theorem routing_correctness:
  "(\<exists>evs. snd (handleMessage M h a w) = w\<lparr>trace := trace w @ evs\<rparr> \<and> length evs \<le> 1 \<and>
      (\<forall>e\<in>set evs. \<exists>j msg. e = Handled j msg \<and> j < length h \<and>
          Message_Identifier M (Message (h ! j)) = Identifier a)) \<and>
   (\<forall>j. j < length h \<and> Message_Identifier M (Message (h ! j)) = Identifier a \<and>
        (\<forall>k<j. Message_Identifier M (Message (h ! k)) \<noteq> Identifier a) \<longrightarrow>
        handleMessage M h a w =
          (case json_Unmarshal M (Body a) (Message (h ! j)) of
             Inl err \<Rightarrow> (Some err, w)
           | Inr msg \<Rightarrow> (Handle (h ! j) msg, emit (Handled j msg) w))) \<and>
   ((\<forall>handler\<in>set h. Message_Identifier M (Message handler) \<noteq> Identifier a) \<longrightarrow>
      handleMessage M h a w =
        (Some (ErrorString (''no handler found for message '' @ Identifier a)), w))"
proof (intro conjI impI allI)
  from handleMessage_from_shape [of M 0 h a w]
  show "\<exists>evs. snd (handleMessage M h a w) = w\<lparr>trace := trace w @ evs\<rparr> \<and> length evs \<le> 1 \<and>
      (\<forall>e\<in>set evs. \<exists>j msg. e = Handled j msg \<and> j < length h \<and>
          Message_Identifier M (Message (h ! j)) = Identifier a)"
    unfolding handleMessage_def by simp
next
  fix j
  assume "j < length h \<and> Message_Identifier M (Message (h ! j)) = Identifier a \<and>
        (\<forall>k<j. Message_Identifier M (Message (h ! k)) \<noteq> Identifier a)"
  with handleMessage_from_first_match [of j h M a 0 w]
  show "handleMessage M h a w =
          (case json_Unmarshal M (Body a) (Message (h ! j)) of
             Inl err \<Rightarrow> (Some err, w)
           | Inr msg \<Rightarrow> (Handle (h ! j) msg, emit (Handled j msg) w))"
    unfolding handleMessage_def by (simp split: sum.splits)
next
  assume "\<forall>handler\<in>set h. Message_Identifier M (Message handler) \<noteq> Identifier a"
  then show "handleMessage M h a w =
        (Some (ErrorString (''no handler found for message '' @ Identifier a)), w)"
    unfolding handleMessage_def by (rule handleMessage_from_no_match)
qed

text \<open>
  Handlers for the identifiers A and B: an envelope of type B calls the second handler
  only, and an envelope of type C calls none and gives the error.
\<close>

theorem routing_correctness_witness:
  "handleMessage example_Message
     [example_handler ''A'' ''orders'' None, example_handler ''B'' ''orders'' None]
     \<lparr>Queue = ''dev.orders'', Identifier = ''B'', Body = ''{}''\<rparr> example_world =
     (None, emit (Handled 1 (''B'', ''orders'', ''{}'')) example_world) \<and>
   handleMessage example_Message
     [example_handler ''A'' ''orders'' None, example_handler ''B'' ''orders'' None]
     \<lparr>Queue = ''dev.orders'', Identifier = ''C'', Body = ''{}''\<rparr> example_world =
     (Some (ErrorString ''no handler found for message C''), example_world)"
proof
  let ?h = "[example_handler ''A'' ''orders'' None, example_handler ''B'' ''orders'' None]"
  let ?b = "\<lparr>Queue = ''dev.orders'', Identifier = ''B'', Body = ''{}''\<rparr>"
  let ?c = "\<lparr>Queue = ''dev.orders'', Identifier = ''C'', Body = ''{}''\<rparr>"
  have first: "1 < length ?h \<and>
      Message_Identifier example_Message (Message (?h ! 1)) = Identifier ?b \<and>
      (\<forall>k<1. Message_Identifier example_Message (Message (?h ! k)) \<noteq> Identifier ?b)"
    by (simp add: example_defs)
  from routing_correctness [of example_Message ?h ?b example_world,
      THEN conjunct2, THEN conjunct1, THEN spec, of 1] first
  show "handleMessage example_Message ?h ?b example_world =
      (None, emit (Handled 1 (''B'', ''orders'', ''{}'')) example_world)"
    by (simp add: example_defs)
  have none: "\<forall>handler\<in>set ?h.
      Message_Identifier example_Message (Message handler) \<noteq> Identifier ?c"
    by (simp add: example_defs)
  from routing_correctness [of example_Message ?h ?c example_world,
      THEN conjunct2, THEN conjunct2] none
  show "handleMessage example_Message ?h ?c example_world =
      (Some (ErrorString ''no handler found for message C''), example_world)"
    by simp
qed

section \<open>Dispatch\<close>

lemma pubsubAdapter_Dispatch_publish:
  "Marshal_pubsubMessage J \<lparr>Headers = \<lparr>Type = Identifier a\<rparr>, mBody = Body a\<rparr> = Inr data \<Longrightarrow>
   trace (snd (pubsubAdapter_Dispatch J B a w)) =
     trace w @
       [Enter_Dispatch a,
        Publish (case topics w (Queue a) of None \<Rightarrow> Queue a | Some t \<Rightarrow> t) data]"
  by (auto simp: pubsubAdapter_Dispatch_def topic_def request_def emit_def
      split: option.splits)

text \<open>
  C1, as the claim states it, fails for the webhook message of this repository. The
  encoding of the message succeeds and \<open>Dispatch\<close> publishes it; the handler of
  \<open>NewHandler\<close> has a prototype with the same identifier; but \<open>UnmarshalJSON\<close> of the
  message wants the payload as a string and the encoding has it as an object, so the
  dispatch closure returns the decoding error and calls no handler, and the receive loop
  nacks the message.
\<close>

theorem round_trip_counterexample:
  "json_Marshal (webhook_Message webhook_answers) order_created =
     Inr ''{\"payload\":{\"type\":\"order.created\",\"data\":null}}'' \<and>
   Message_Identifier (webhook_Message webhook_answers) (Message (NewHandler [])) =
     Message_Identifier (webhook_Message webhook_answers) order_created \<and>
   trace (snd (Dispatch example_config (webhook_Message webhook_answers) example_json
      fresh_broker order_created webhook_world)) =
     [Enter_Dispatch
        \<lparr>Queue = ''dev.bootstrap-go-service.webhook'', Identifier = ''webhook'',
         Body = ''{\"payload\":{\"type\":\"order.created\",\"data\":null}}''\<rparr>,
      Publish ''dev.bootstrap-go-service.webhook''
        ''webhook:{\"payload\":{\"type\":\"order.created\",\"data\":null}}''] \<and>
   handleMessage (webhook_Message webhook_answers) [NewHandler []]
      \<lparr>Queue = ''dev.bootstrap-go-service.webhook'', Identifier = ''webhook'',
       Body = ''{\"payload\":{\"type\":\"order.created\",\"data\":null}}''\<rparr> webhook_world =
     (Some (JSONError
        ''json: cannot unmarshal object into Go struct field .payload of type string''),
      webhook_world) \<and>
   receive_callback example_json ''dev.bootstrap-go-service.webhook''
      (handleMessage (webhook_Message webhook_answers) [NewHandler []])
      \<lparr>ID = ''1'',
       Data = ''webhook:{\"payload\":{\"type\":\"order.created\",\"data\":null}}''\<rparr>
      webhook_world =
     emit (Nack ''1'') webhook_world"
  by (simp add: webhook_Message_def webhook_answers_def order_created_def NewHandler_def
      message_UnmarshalJSON_def webhook_world_def example_config_def example_json_def
      fresh_broker_def Dispatch_def prefixQueue_def handleMessage_def collaborator_defs
      adapter_defs)

text \<open>
  C1, amended. Let the JSON encoding of \<open>msg\<close> succeed with \<open>body\<close>, let the wire envelope
  of the identifier of \<open>msg\<close> and \<open>body\<close> encode to \<open>data\<close> and \<open>data\<close> decode to that
  envelope again, and let the \<open>i\<close>-th handler be the first whose prototype has the
  identifier of \<open>msg\<close>. Then \<open>Dispatch\<close> enters the adapter with the identifier and \<open>body\<close>
  and publishes \<open>data\<close>; and when the receive loop delivers a message with that \<open>data\<close>,
  on whatever queue, \<open>body\<close> is decoded into the prototype of the \<open>i\<close>-th handler: if that
  fails, no handler is called and the message is nacked; if it gives a message, \<open>Handle\<close>
  of the \<open>i\<close>-th handler is called on it, once, and the message is acked when \<open>Handle\<close>
  returns \<open>nil\<close> and nacked otherwise. So the handler receives \<open>msg\<close> itself when decoding
  the encoding of \<open>msg\<close> into the prototype gives \<open>msg\<close> back, and otherwise whatever that
  decoding gives.
\<close>

theorem dispatched_body_reaches_handler:
  assumes "json_Marshal M msg = Inr body"
    and "Marshal_pubsubMessage J \<lparr>Headers = \<lparr>Type = Message_Identifier M msg\<rparr>, mBody = body\<rparr> =
           Inr data"
    and "Unmarshal_pubsubMessage J data =
           Inr \<lparr>Headers = \<lparr>Type = Message_Identifier M msg\<rparr>, mBody = body\<rparr>"
    and "i < length h"
    and "Message_Identifier M (Message (h ! i)) = Message_Identifier M msg"
    and "\<forall>k<i. Message_Identifier M (Message (h ! k)) \<noteq> Message_Identifier M msg"
  shows "trace (snd (Dispatch m M J B msg w)) =
      trace w @
        [Enter_Dispatch \<lparr>Queue = prefixQueue m (Message_Queue M msg),
           Identifier = Message_Identifier M msg, Body = body\<rparr>,
         Publish (case topics w (prefixQueue m (Message_Queue M msg)) of
                    None \<Rightarrow> prefixQueue m (Message_Queue M msg) | Some t \<Rightarrow> t) data] \<and>
    (\<forall>pm. Data pm = data \<longrightarrow>
       receive_callback J queue (handleMessage M h) pm w' =
         (case json_Unmarshal M body (Message (h ! i)) of
            Inl err \<Rightarrow> emit (Nack (ID pm)) w'
          | Inr decoded \<Rightarrow>
              emit (if Handle (h ! i) decoded = None then Ack (ID pm) else Nack (ID pm))
                (emit (Handled i decoded) w'))) \<and>
    (json_Unmarshal M body (Message (h ! i)) = Inr msg \<longrightarrow>
       (\<forall>pm. Data pm = data \<longrightarrow>
          receive_callback J queue (handleMessage M h) pm w' =
            emit (if Handle (h ! i) msg = None then Ack (ID pm) else Nack (ID pm))
              (emit (Handled i msg) w')))"
proof -
  let ?a = "\<lparr>Queue = prefixQueue m (Message_Queue M msg),
      Identifier = Message_Identifier M msg, Body = body\<rparr>"
  from assms(1,2) pubsubAdapter_Dispatch_publish [of J ?a data B w]
  have 1: "trace (snd (Dispatch m M J B msg w)) =
      trace w @
        [Enter_Dispatch ?a,
         Publish (case topics w (prefixQueue m (Message_Queue M msg)) of
                    None \<Rightarrow> prefixQueue m (Message_Queue M msg) | Some t \<Rightarrow> t) data]"
    by (simp add: Dispatch_def split: option.splits)
  have 2: "receive_callback J queue (handleMessage M h) pm w' =
      (case json_Unmarshal M body (Message (h ! i)) of
         Inl err \<Rightarrow> emit (Nack (ID pm)) w'
       | Inr decoded \<Rightarrow>
           emit (if Handle (h ! i) decoded = None then Ack (ID pm) else Nack (ID pm))
             (emit (Handled i decoded) w'))"
    if "Data pm = data" for pm
  proof -
    let ?e = "\<lparr>Queue = queue, Identifier = Message_Identifier M msg, Body = body\<rparr>"
    from handleMessage_from_first_match [of i h M ?e 0 w'] assms(4-6)
    have "handleMessage M h ?e w' =
        (case json_Unmarshal M body (Message (h ! i)) of
           Inl err \<Rightarrow> (Some err, w')
         | Inr decoded \<Rightarrow> (Handle (h ! i) decoded, emit (Handled i decoded) w'))"
      by (simp add: handleMessage_def split: sum.splits)
    with that assms(3) show ?thesis
      by (auto simp: receive_callback_def split: sum.splits option.splits)
  qed
  from 1 2 show ?thesis by simp
qed

text \<open>
  The scenario of the specification: environment dev, queue and identifier webhook, for
  the message type of the examples, whose decoding gives the message back.
\<close>

theorem dispatched_body_reaches_handler_witness:
  "trace (snd (Dispatch example_config example_Message example_json fresh_broker
      (''webhook'', ''webhook'', ''{\"type\":\"order.created\"}'') example_world)) =
     [Enter_Dispatch \<lparr>Queue = ''dev.webhook'', Identifier = ''webhook'',
        Body = ''{\"type\":\"order.created\"}''\<rparr>,
      Publish ''dev.webhook'' ''webhook:{\"type\":\"order.created\"}''] \<and>
   receive_callback example_json ''dev.webhook''
      (handleMessage example_Message [example_handler ''webhook'' ''webhook'' None])
      \<lparr>ID = ''1'', Data = ''webhook:{\"type\":\"order.created\"}''\<rparr> example_world =
     emit (Ack ''1'')
       (emit (Handled 0 (''webhook'', ''webhook'', ''{\"type\":\"order.created\"}''))
          example_world)"
proof -
  let ?msg = "(''webhook'', ''webhook'', ''{\"type\":\"order.created\"}'')"
  let ?h = "[example_handler ''webhook'' ''webhook'' None]"
  let ?data = "''webhook:{\"type\":\"order.created\"}''"
  have enc: "json_Marshal example_Message ?msg = Inr ''{\"type\":\"order.created\"}''"
    by (simp add: example_Message_def)
  have wire: "Marshal_pubsubMessage example_json
      \<lparr>Headers = \<lparr>Type = Message_Identifier example_Message ?msg\<rparr>,
       mBody = ''{\"type\":\"order.created\"}''\<rparr> = Inr ?data"
    by (simp add: example_json_def example_Message_def)
  have unwire: "Unmarshal_pubsubMessage example_json ?data =
      Inr \<lparr>Headers = \<lparr>Type = Message_Identifier example_Message ?msg\<rparr>,
           mBody = ''{\"type\":\"order.created\"}''\<rparr>"
    by (simp add: example_json_def example_Message_def)
  have i: "0 < length ?h" by simp
  have idm: "Message_Identifier example_Message (Message (?h ! 0)) =
      Message_Identifier example_Message ?msg"
    by (simp add: example_Message_def example_handler_def)
  have first: "\<forall>k<0. Message_Identifier example_Message (Message (?h ! k)) \<noteq>
      Message_Identifier example_Message ?msg"
    by simp
  have dec: "json_Unmarshal example_Message ''{\"type\":\"order.created\"}''
      (Message (?h ! 0)) = Inr ?msg"
    by (simp add: example_Message_def example_handler_def)
  note t = dispatched_body_reaches_handler [OF enc wire unwire i idm first,
      of example_config fresh_broker example_world "''dev.webhook''" example_world]
  from t [THEN conjunct1]
  have "trace (snd (Dispatch example_config example_Message example_json fresh_broker
      ?msg example_world)) =
     [Enter_Dispatch \<lparr>Queue = ''dev.webhook'', Identifier = ''webhook'',
        Body = ''{\"type\":\"order.created\"}''\<rparr>,
      Publish ''dev.webhook'' ''webhook:{\"type\":\"order.created\"}'']"
    by (simp add: example_Message_def example_config_def example_world_def prefixQueue_def)
  moreover from t [THEN conjunct2, THEN conjunct2, THEN mp, OF dec, THEN spec,
      of "\<lparr>ID = ''1'', Data = ?data\<rparr>"]
  have "receive_callback example_json ''dev.webhook'' (handleMessage example_Message ?h)
      \<lparr>ID = ''1'', Data = ?data\<rparr> example_world =
     emit (Ack ''1'') (emit (Handled 0 ?msg) example_world)"
    by (simp add: example_handler_def)
  ultimately show ?thesis by simp
qed

text \<open>
  C3, as the claim states it, fails: at a broker where no topic exists, \<open>Dispatch\<close> of
  the adapter publishes without asking for the topic and without creating it.
\<close>

theorem dispatch_creates_topic_counterexample:
  "Exists_answer fresh_broker 1 = (False, None) \<and>
   trace (snd (pubsubAdapter_Dispatch example_json fresh_broker
      \<lparr>Queue = ''dev.orders'', Identifier = ''order'', Body = ''{}''\<rparr> example_world)) =
     [Enter_Dispatch \<lparr>Queue = ''dev.orders'', Identifier = ''order'', Body = ''{}''\<rparr>,
      Publish ''dev.orders'' ''order:{}'']"
  by (simp add: example_defs collaborator_defs adapter_defs)

text \<open>
  C3, amended. \<open>Dispatch\<close> of the adapter resolves the topic handle of the queue lazily
  and memoized (the handle of the memo map if there is one, a new one otherwise, which
  it stores), makes no request to the broker for the topic, so neither asks whether it
  exists nor creates it, and publishes the envelope on the handle. A topic that does not
  exist is created by \<open>topic(queue, true)\<close>, which is the call of the \<open>Subscribe\<close> path.
\<close>

theorem dispatch_resolves_topic_without_creating:
  "(Marshal_pubsubMessage J \<lparr>Headers = \<lparr>Type = Identifier a\<rparr>, mBody = Body a\<rparr> = Inr json \<longrightarrow>
      pubsubAdapter_Dispatch J B a w =
        (error_answer B (Suc (length (trace w))),
         w\<lparr>trace := trace w @
              [Enter_Dispatch a,
               Publish (case topics w (Queue a) of None \<Rightarrow> Queue a | Some t \<Rightarrow> t) json],
           topics := (topics w)
              (Queue a \<mapsto> (case topics w (Queue a) of None \<Rightarrow> Queue a | Some t \<Rightarrow> t))\<rparr>)) \<and>
   (topics w queue = None \<and> Exists_answer B (length (trace w)) = (False, None) \<longrightarrow>
      trace (snd (topic B queue True w)) = trace w @ [Topic_Exists queue, CreateTopic queue]) \<and>
   trace (snd (topic B queue False w)) = trace w"
  by (auto simp: pubsubAdapter_Dispatch_def topic_def createTopicIfNotExists_def
      request_def request_Exists_def emit_def fun_upd_idem split: option.splits prod.splits)

theorem dispatch_resolves_topic_without_creating_witness:
  "pubsubAdapter_Dispatch example_json fresh_broker
      \<lparr>Queue = ''dev.orders'', Identifier = ''order'', Body = ''{}''\<rparr> example_world =
     (None,
      example_world\<lparr>trace :=
          [Enter_Dispatch \<lparr>Queue = ''dev.orders'', Identifier = ''order'', Body = ''{}''\<rparr>,
           Publish ''dev.orders'' ''order:{}''],
        topics := [''dev.orders'' \<mapsto> ''dev.orders'']\<rparr>) \<and>
   trace (snd (topic fresh_broker ''dev.orders'' True example_world)) =
     [Topic_Exists ''dev.orders'', CreateTopic ''dev.orders'']"
  using dispatch_resolves_topic_without_creating [of example_json
      "\<lparr>Queue = ''dev.orders'', Identifier = ''order'', Body = ''{}''\<rparr>" "''order:{}''"
      fresh_broker example_world "''dev.orders''"]
  by (simp add: example_json_def fresh_broker_def example_world_def)

section \<open>Acknowledgement\<close>

text \<open>
  C8 (ack/nack protocol). Whatever the callback \<open>h\<close> is, the function that the adapter
  gives to \<open>Receive\<close> ends, for each message, with exactly one event after those of \<open>h\<close>,
  an \<open>Ack\<close> or a \<open>Nack\<close> of that message: a \<open>Nack\<close> exactly when the envelope does not
  decode or \<open>h\<close> returns an error, an \<open>Ack\<close> exactly when the envelope decodes and \<open>h\<close>
  returns \<open>nil\<close>.
\<close>

theorem ack_nack_protocol:
  "\<exists>e w1. receive_callback J queue h msg w = emit e w1 \<and>
     w1 = (case Unmarshal_pubsubMessage J (Data msg) of
             Inl err \<Rightarrow> w
           | Inr m \<Rightarrow> snd (h \<lparr>Queue = queue, Identifier = Type (Headers m), Body = mBody m\<rparr> w)) \<and>
     (e = Nack (ID msg) \<or> e = Ack (ID msg)) \<and>
     (e = Nack (ID msg) \<longleftrightarrow>
        (\<exists>err. Unmarshal_pubsubMessage J (Data msg) = Inl err) \<or>
        (\<exists>m err. Unmarshal_pubsubMessage J (Data msg) = Inr m \<and>
           fst (h \<lparr>Queue = queue, Identifier = Type (Headers m), Body = mBody m\<rparr> w) = Some err)) \<and>
     (e = Ack (ID msg) \<longleftrightarrow>
        (\<exists>m. Unmarshal_pubsubMessage J (Data msg) = Inr m \<and>
           fst (h \<lparr>Queue = queue, Identifier = Type (Headers m), Body = mBody m\<rparr> w) = None))"
proof (cases "Unmarshal_pubsubMessage J (Data msg)")
  case (Inl err)
  then show ?thesis
    by (intro exI [of _ "Nack (ID msg)"] exI [of _ w]) (simp add: receive_callback_def)
next
  case (Inr m)
  obtain r w1 where call:
    "h \<lparr>Queue = queue, Identifier = Type (Headers m), Body = mBody m\<rparr> w = (r, w1)"
    by (cases "h \<lparr>Queue = queue, Identifier = Type (Headers m), Body = mBody m\<rparr> w")
  show ?thesis
  proof (cases r)
    case None
    with Inr call show ?thesis
      by (intro exI [of _ "Ack (ID msg)"] exI [of _ w1]) (simp add: receive_callback_def)
  next
    case (Some err)
    with Inr call show ?thesis
      by (intro exI [of _ "Nack (ID msg)"] exI [of _ w1]) (simp add: receive_callback_def)
  qed
qed

theorem ack_nack_protocol_witness:
  "receive_callback example_json ''dev.orders''
      (handleMessage example_Message [example_handler ''A'' ''orders'' None])
      \<lparr>ID = ''1'', Data = ''A:{}''\<rparr> example_world =
     emit (Ack ''1'') (emit (Handled 0 (''A'', ''orders'', ''{}'')) example_world) \<and>
   receive_callback example_json ''dev.orders''
      (handleMessage example_Message [example_handler ''A'' ''orders'' None])
      \<lparr>ID = ''2'', Data = ''C:{}''\<rparr> example_world =
     emit (Nack ''2'') example_world \<and>
   receive_callback example_json ''dev.orders''
      (handleMessage example_Message [example_handler ''A'' ''orders'' None])
      \<lparr>ID = ''3'', Data = ''garbage''\<rparr> example_world =
     emit (Nack ''3'') example_world"
  using
    ack_nack_protocol [of example_json "''dev.orders''"
      "handleMessage example_Message [example_handler ''A'' ''orders'' None]"
      "\<lparr>ID = ''1'', Data = ''A:{}''\<rparr>" example_world]
    ack_nack_protocol [of example_json "''dev.orders''"
      "handleMessage example_Message [example_handler ''A'' ''orders'' None]"
      "\<lparr>ID = ''2'', Data = ''C:{}''\<rparr>" example_world]
    ack_nack_protocol [of example_json "''dev.orders''"
      "handleMessage example_Message [example_handler ''A'' ''orders'' None]"
      "\<lparr>ID = ''3'', Data = ''garbage''\<rparr>" example_world]
  by (simp add: example_json_def example_Message_def example_handler_def handleMessage_def
      receive_callback_def)

section \<open>Subscribe: the end of the call\<close>

text \<open>
  C4 (clean cancellation). When the handlers pass the first loop and the call of the
  adapter returns \<open>nil\<close> or the error that \<open>ctx.Err()\<close> then gives, \<open>Subscribe\<close> returns,
  and returns \<open>nil\<close>, after \<open>Done\<close> of the shutdown coordinator.
\<close>

theorem clean_cancellation:
  assumes "Subscribe_queue M [] h = Inr queue"
    and "fst (adapter_Subscribe_call m M J B h queue w) = None \<or>
         fst (adapter_Subscribe_call m M J B h queue w) =
           ctx_Err B (snd (adapter_Subscribe_call m M J B h queue w))"
  shows "Subscribe (Suc n) m M J B h w =
     Some (None, GracefulShutdown_Done (snd (adapter_Subscribe_call m M J B h queue w)))"
  using assms by (auto split: prod.splits)

text \<open>
  The receive loop returns \<open>context.Canceled\<close> after the shutdown: \<open>Subscribe\<close> returns
  \<open>nil\<close>, whatever the restart timeout.
\<close>

theorem clean_cancellation_witness:
  "fst (adapter_Subscribe_call (example_config\<lparr>RestartTimeout := 5000000000\<rparr>) example_Message
      example_json cancelled_broker [example_handler ''A'' ''orders'' None] ''orders''
      example_world) = Some Canceled \<and>
   map_option fst (Subscribe (Suc 0) (example_config\<lparr>RestartTimeout := 5000000000\<rparr>)
      example_Message example_json cancelled_broker [example_handler ''A'' ''orders'' None]
      example_world) = Some None"
proof -
  let ?m = "example_config\<lparr>RestartTimeout := 5000000000\<rparr>"
  let ?h = "[example_handler ''A'' ''orders'' None]"
  have q: "Subscribe_queue example_Message [] ?h = Inr ''orders''"
    by (simp add: example_defs)
  have r: "fst (adapter_Subscribe_call ?m example_Message example_json cancelled_broker ?h
      ''orders'' example_world) = Some Canceled"
    by (simp add: example_defs cancelled_broker_def collaborator_defs adapter_defs prefixQueue_def)
  have c: "ctx_Err cancelled_broker w = Some Canceled"
    for w :: "(string \<times> string \<times> string) world"
    by (simp add: cancelled_broker_def ctx_Err_def)
  from clean_cancellation [of example_Message ?h "''orders''" ?m example_json cancelled_broker
      example_world 0] q r c
  show ?thesis by simp
qed

text \<open>
  C5 (restart behaviour). Let the handlers pass the first loop and the call of the
  adapter return an error \<open>err\<close> that is not the error of the context. With a restart
  timeout of zero, \<open>Subscribe\<close> returns \<open>err\<close>. With any other timeout \<open>T\<close>, \<open>Subscribe\<close>
  sleeps for \<open>T\<close>, so that the clock has advanced by \<open>T\<close> when \<open>T\<close> is positive, then
  calls itself with the same handlers in the world after the sleep, and returns what that
  call returns (after its own \<open>Done\<close>); whenever that call returns, it has entered the
  adapter's \<open>Subscribe\<close> again, after the sleep and for the same queue.
\<close>

theorem restart_behavior:
  assumes "Subscribe_queue M [] h = Inr queue"
    and "adapter_Subscribe_call m M J B h queue w = (Some err, w1)"
    and "ctx_Err B w1 \<noteq> Some err"
  shows "(RestartTimeout m = 0 \<longrightarrow>
            Subscribe (Suc n) m M J B h w = Some (Some err, GracefulShutdown_Done w1)) \<and>
         (RestartTimeout m \<noteq> 0 \<longrightarrow>
            Subscribe (Suc n) m M J B h w =
              map_option (apsnd GracefulShutdown_Done)
                (Subscribe n m M J B h (time_Sleep (RestartTimeout m) w1)) \<and>
            trace (time_Sleep (RestartTimeout m) w1) = trace w1 @ [Sleep (RestartTimeout m)] \<and>
            (0 < RestartTimeout m \<longrightarrow>
               now (time_Sleep (RestartTimeout m) w1) = now w1 + RestartTimeout m) \<and>
            (\<forall>r w'. Subscribe (Suc n) m M J B h w = Some (r, w') \<longrightarrow>
               prefix (trace w1 @ [Sleep (RestartTimeout m), Shutdown_Add,
                         Enter_Subscribe (prefixQueue m queue)]) (trace w')))"
proof (intro conjI impI allI)
  assume "RestartTimeout m = 0"
  with assms show "Subscribe (Suc n) m M J B h w = Some (Some err, GracefulShutdown_Done w1)"
    by auto
next
  assume T: "RestartTimeout m \<noteq> 0"
  with assms show eq: "Subscribe (Suc n) m M J B h w =
      map_option (apsnd GracefulShutdown_Done)
        (Subscribe n m M J B h (time_Sleep (RestartTimeout m) w1))"
    by (auto split: option.splits)
  show "trace (time_Sleep (RestartTimeout m) w1) = trace w1 @ [Sleep (RestartTimeout m)]"
    by (simp add: time_Sleep_def emit_def)
  fix r w'
  assume "Subscribe (Suc n) m M J B h w = Some (r, w')"
  with eq obtain w2 where
    2: "Subscribe n m M J B h (time_Sleep (RestartTimeout m) w1) = Some (r, w2)"
    and w': "w' = GracefulShutdown_Done w2"
    by auto
  from prefix_Subscribe [OF assms(1) 2]
  have "prefix (trace w1 @ [Sleep (RestartTimeout m), Shutdown_Add,
      Enter_Subscribe (prefixQueue m queue)]) (trace w2)"
    by (simp add: time_Sleep_def emit_def)
  with w' show "prefix (trace w1 @ [Sleep (RestartTimeout m), Shutdown_Add,
      Enter_Subscribe (prefixQueue m queue)]) (trace w')"
    by (auto simp: GracefulShutdown_Done_def emit_def prefix_def)
next
  assume "RestartTimeout m \<noteq> 0" "0 < RestartTimeout m"
  then show "now (time_Sleep (RestartTimeout m) w1) = now w1 + RestartTimeout m"
    by (simp add: time_Sleep_def emit_def)
qed

text \<open>
  A restart timeout of five seconds, and a broker whose first receive loop fails: the
  first call of the adapter returns the broker's error, \<open>Subscribe\<close> sleeps five seconds
  and calls itself, and the second receive loop ends the call with \<open>nil\<close>.
\<close>

theorem restart_behavior_witness:
  "fst (adapter_Subscribe_call (example_config\<lparr>RestartTimeout := 5000000000\<rparr>) example_Message
      example_json flaky_broker [example_handler ''A'' ''orders'' None] ''orders''
      example_world) = Some (BrokerError ''unavailable'') \<and>
   now (time_Sleep 5000000000
      (snd (adapter_Subscribe_call (example_config\<lparr>RestartTimeout := 5000000000\<rparr>)
         example_Message example_json flaky_broker [example_handler ''A'' ''orders'' None]
         ''orders'' example_world))) = 5000000000 \<and>
   Subscribe (Suc (Suc 0)) (example_config\<lparr>RestartTimeout := 5000000000\<rparr>) example_Message
      example_json flaky_broker [example_handler ''A'' ''orders'' None] example_world =
     map_option (apsnd GracefulShutdown_Done)
       (Subscribe (Suc 0) (example_config\<lparr>RestartTimeout := 5000000000\<rparr>) example_Message
          example_json flaky_broker [example_handler ''A'' ''orders'' None]
          (time_Sleep 5000000000
            (snd (adapter_Subscribe_call (example_config\<lparr>RestartTimeout := 5000000000\<rparr>)
               example_Message example_json flaky_broker [example_handler ''A'' ''orders'' None]
               ''orders'' example_world)))) \<and>
   map_option fst (Subscribe (Suc (Suc 0)) (example_config\<lparr>RestartTimeout := 5000000000\<rparr>)
      example_Message example_json flaky_broker [example_handler ''A'' ''orders'' None]
      example_world) = Some None"
proof -
  let ?m = "example_config\<lparr>RestartTimeout := 5000000000\<rparr>"
  let ?h = "[example_handler ''A'' ''orders'' None]"
  let ?call = "adapter_Subscribe_call ?m example_Message example_json flaky_broker ?h
      ''orders'' example_world"
  have q: "Subscribe_queue example_Message [] ?h = Inr ''orders''"
    by (simp add: example_defs)
  have r: "fst ?call = Some (BrokerError ''unavailable'')"
    by (simp add: example_defs flaky_broker_def collaborator_defs adapter_defs prefixQueue_def)
  then have call: "?call = (Some (BrokerError ''unavailable''), snd ?call)"
    by (metis prod.collapse)
  have c: "ctx_Err flaky_broker (snd ?call) \<noteq> Some (BrokerError ''unavailable'')"
    by (simp add: flaky_broker_def fresh_broker_def ctx_Err_def)
  have T: "RestartTimeout ?m = 5000000000"
    by (simp add: example_config_def)
  have n: "now (snd ?call) = 0"
    by (simp add: example_defs flaky_broker_def collaborator_defs adapter_defs prefixQueue_def)
  have e: "map_option fst (Subscribe (Suc (Suc 0)) ?m example_Message example_json
      flaky_broker ?h example_world) = Some None"
    by (simp add: example_defs flaky_broker_def collaborator_defs adapter_defs prefixQueue_def)
  from restart_behavior [OF q call c, of "Suc 0"] T n r e show ?thesis
    by (simp del: Subscribe.simps)
qed

section \<open>Subscribe: the queues of the handlers\<close>

lemma Subscribe_queue_empty_prefix:
  "\<forall>e\<in>set es. Message_Queue M (Message e) = [] \<Longrightarrow>
   Subscribe_queue M [] (es @ h) = Subscribe_queue M [] h"
  by (induction es) auto

text \<open>
  Two handlers in a list of their own, the first with a non-empty queue and the second
  with another queue: \<open>Subscribe\<close> returns \<open>ErrDifferentQueues\<close> and leaves the world as
  it was.
\<close>

lemma Subscribe_different_queues:
  "Message_Queue M (Message h1) \<noteq> [] \<Longrightarrow>
   Message_Queue M (Message h1) \<noteq> Message_Queue M (Message h2) \<Longrightarrow>
   Subscribe (Suc n) m M J B [h1, h2] w = Some (Some ErrDifferentQueues, w)"
  by simp

lemma Subscribe_unfold:
  "Subscribe_queue M [] h = Inr queue \<Longrightarrow>
   Subscribe (Suc n) m M J B h w =
     Subscribe_after n m M J B h (adapter_Subscribe_call m M J B h queue w)"
  by (auto split: prod.splits option.splits)

lemma prefix_adapter_Subscribe_call:
  "prefix (trace w @ [Shutdown_Add, Enter_Subscribe (prefixQueue m queue)])
     (trace (snd (adapter_Subscribe_call m M J B h queue w)))"
  using prefix_pubsubAdapter_Subscribe [of "GracefulShutdown_Add w" "prefixQueue m queue"
      "pubsubAdapter_config m" J B M h]
  by (simp add: GracefulShutdown_Add_def emit_def)

lemma Subscribe_not_from_first_loop:
  assumes "Subscribe_queue M [] h = Inr queue"
  shows "Subscribe n m M J B h w \<noteq> Some (r, w)"
proof
  assume "Subscribe n m M J B h w = Some (r, w)"
  from prefix_Subscribe [OF assms this] show False
    by (auto simp: prefix_def)
qed

lemma Subscribe_queue_same:
  "queue \<noteq> [] \<Longrightarrow> \<forall>x\<in>set rest. Message_Queue M (Message x) = queue \<Longrightarrow>
   Subscribe_queue M queue rest = Inr queue"
  by (induction rest) auto

text \<open>
  C10, as the claim states it, fails when a handler after the non-empty one has another
  queue, the empty one included: the first handler has the empty queue, a later handler
  the queue x, and \<open>Subscribe\<close> returns \<open>ErrDifferentQueues\<close>, for the third.
\<close>

theorem empty_queue_counterexample:
  "Message_Queue example_Message (Message (example_handler ''A'' [] None)) = [] \<and>
   Message_Queue example_Message (Message (example_handler ''B'' ''x'' None)) = ''x'' \<and>
   Subscribe (Suc 0) example_config example_Message example_json fresh_broker
      [example_handler ''A'' [] None, example_handler ''B'' ''x'' None,
       example_handler ''C'' [] None] example_world =
     Some (Some ErrDifferentQueues, example_world)"
  by (simp add: example_Message_def example_handler_def)

text \<open>
  C10, amended (the empty queue name). Handlers whose queue is the empty string, at the head of
  the list, count for nothing in the first loop of \<open>Subscribe\<close>: the loop ends as it does
  on the rest of the list. So when they are followed by a handler with a non-empty queue
  (and by handlers of that same queue, if any), the loop ends with that queue instead of
  \<open>ErrDifferentQueues\<close>, and with no handler at all it ends with the empty queue. In both
  cases \<open>Subscribe\<close> goes on: it registers with the shutdown coordinator and calls the
  adapter's \<open>Subscribe\<close>, which is entered for the queue of the later handler with its
  prefix, or for the queue named by the environment and a dot, and what \<open>Subscribe\<close>
  returns is decided by what that call returns; it is not the return of the first loop.
  With no handler, the dispatch closure finds no handler for any message.
\<close>

theorem empty_queue_bypasses_validation:
  "((\<forall>e\<in>set es. Message_Queue M (Message e) = []) \<longrightarrow>
      Subscribe_queue M [] (es @ h) = Subscribe_queue M [] h) \<and>
   ((\<forall>e\<in>set es. Message_Queue M (Message e) = []) \<and> Message_Queue M (Message later) \<noteq> [] \<and>
    (\<forall>x\<in>set rest. Message_Queue M (Message x) = Message_Queue M (Message later)) \<longrightarrow>
      Subscribe_queue M [] (es @ later # rest) = Inr (Message_Queue M (Message later)) \<and>
      Subscribe (Suc n) m M J B (es @ later # rest) w =
        Subscribe_after n m M J B (es @ later # rest)
          (adapter_Subscribe_call m M J B (es @ later # rest)
             (Message_Queue M (Message later)) w) \<and>
      prefix (trace w @ [Shutdown_Add,
           Enter_Subscribe (Environment m @ ''.'' @ Message_Queue M (Message later))])
        (trace (snd (adapter_Subscribe_call m M J B (es @ later # rest)
           (Message_Queue M (Message later)) w))) \<and>
      Subscribe (Suc n) m M J B (es @ later # rest) w \<noteq> Some (Some ErrDifferentQueues, w)) \<and>
   Subscribe_queue M [] [] = Inr [] \<and>
   Subscribe (Suc n) m M J B [] w =
     Subscribe_after n m M J B [] (adapter_Subscribe_call m M J B [] [] w) \<and>
   prefix (trace w @ [Shutdown_Add, Enter_Subscribe (Environment m @ ''.'')])
     (trace (snd (adapter_Subscribe_call m M J B [] [] w))) \<and>
   Subscribe (Suc n) m M J B [] w \<noteq> Some (Some ErrDifferentQueues, w) \<and>
   handleMessage M [] a w' =
     (Some (ErrorString (''no handler found for message '' @ Identifier a)), w')"
proof (intro conjI impI)
  assume "\<forall>e\<in>set es. Message_Queue M (Message e) = []"
  then show "Subscribe_queue M [] (es @ h) = Subscribe_queue M [] h"
    by (rule Subscribe_queue_empty_prefix)
next
  assume a: "(\<forall>e\<in>set es. Message_Queue M (Message e) = []) \<and>
    Message_Queue M (Message later) \<noteq> [] \<and>
    (\<forall>x\<in>set rest. Message_Queue M (Message x) = Message_Queue M (Message later))"
  then have "Subscribe_queue M [] (es @ later # rest) = Subscribe_queue M [] (later # rest)"
    by (simp add: Subscribe_queue_empty_prefix)
  with a show q: "Subscribe_queue M [] (es @ later # rest) = Inr (Message_Queue M (Message later))"
    by (simp add: Subscribe_queue_same)
  from q show "Subscribe (Suc n) m M J B (es @ later # rest) w =
      Subscribe_after n m M J B (es @ later # rest)
        (adapter_Subscribe_call m M J B (es @ later # rest) (Message_Queue M (Message later)) w)"
    by (rule Subscribe_unfold)
  from prefix_adapter_Subscribe_call [of w m "Message_Queue M (Message later)" J B M
      "es @ later # rest"]
  show "prefix (trace w @ [Shutdown_Add,
         Enter_Subscribe (Environment m @ ''.'' @ Message_Queue M (Message later))])
      (trace (snd (adapter_Subscribe_call m M J B (es @ later # rest)
         (Message_Queue M (Message later)) w)))"
    by (simp add: prefixQueue_def)
  from q show "Subscribe (Suc n) m M J B (es @ later # rest) w \<noteq>
      Some (Some ErrDifferentQueues, w)"
    by (rule Subscribe_not_from_first_loop)
next
  show q: "Subscribe_queue M [] [] = Inr []" by simp
  from q show "Subscribe (Suc n) m M J B [] w =
      Subscribe_after n m M J B [] (adapter_Subscribe_call m M J B [] [] w)"
    by (rule Subscribe_unfold)
  from prefix_adapter_Subscribe_call [of w m "[]" J B M "[]"]
  show "prefix (trace w @ [Shutdown_Add, Enter_Subscribe (Environment m @ ''.'')])
      (trace (snd (adapter_Subscribe_call m M J B [] [] w)))"
    by (simp add: prefixQueue_def)
  from q show "Subscribe (Suc n) m M J B [] w \<noteq> Some (Some ErrDifferentQueues, w)"
    by (rule Subscribe_not_from_first_loop)
next
  show "handleMessage M [] a w' =
      (Some (ErrorString (''no handler found for message '' @ Identifier a)), w')"
    by (simp add: handleMessage_def)
qed

text \<open>
  A handler with the empty queue before a handler of the queue y; and no handler.
\<close>

theorem empty_queue_bypasses_validation_witness:
  "Subscribe_queue example_Message []
      ([example_handler ''A'' [] None] @ example_handler ''B'' ''y'' None # []) = Inr ''y'' \<and>
   prefix [Shutdown_Add, Enter_Subscribe ''dev.y'']
     (trace (snd (adapter_Subscribe_call example_config example_Message example_json
        fresh_broker ([example_handler ''A'' [] None] @ example_handler ''B'' ''y'' None # [])
        ''y'' example_world))) \<and>
   Subscribe (Suc 0) example_config example_Message example_json fresh_broker
      ([example_handler ''A'' [] None] @ example_handler ''B'' ''y'' None # []) example_world \<noteq>
     Some (Some ErrDifferentQueues, example_world) \<and>
   prefix [Shutdown_Add, Enter_Subscribe ''dev.'']
     (trace (snd (adapter_Subscribe_call example_config example_Message example_json
        fresh_broker [] [] example_world)))"
proof -
  let ?es = "[example_handler ''A'' [] None]"
  let ?later = "example_handler ''B'' ''y'' None"
  have es: "(\<forall>e\<in>set ?es. Message_Queue example_Message (Message e) = []) \<and>
      Message_Queue example_Message (Message ?later) \<noteq> [] \<and>
      (\<forall>x\<in>set []. Message_Queue example_Message (Message x) =
         Message_Queue example_Message (Message ?later))"
    by (simp add: example_defs)
  have c: "Environment example_config = ''dev''"
    "Message_Queue example_Message (Message ?later) = ''y''"
    "trace example_world = []"
    by (simp_all add: example_defs)
  note t = empty_queue_bypasses_validation [of ?es example_Message "[]" ?later "[]" 0
      example_config example_json fresh_broker example_world]
  note t2 = t [THEN conjunct2, THEN conjunct1, THEN mp, OF es]
  from t2 [THEN conjunct1]
  have "Subscribe_queue example_Message [] (?es @ ?later # []) = Inr ''y''"
    by (simp add: c)
  moreover from t2 [THEN conjunct2, THEN conjunct2, THEN conjunct1]
  have "prefix [Shutdown_Add, Enter_Subscribe ''dev.y'']
      (trace (snd (adapter_Subscribe_call example_config example_Message example_json
         fresh_broker (?es @ ?later # []) ''y'' example_world)))"
    by (simp add: c)
  moreover from t2 [THEN conjunct2, THEN conjunct2, THEN conjunct2]
  have "Subscribe (Suc 0) example_config example_Message example_json fresh_broker
      (?es @ ?later # []) example_world \<noteq> Some (Some ErrDifferentQueues, example_world)"
    by (simp del: Subscribe.simps)
  moreover from t [THEN conjunct2, THEN conjunct2, THEN conjunct2, THEN conjunct2,
      THEN conjunct1]
  have "prefix [Shutdown_Add, Enter_Subscribe ''dev.'']
      (trace (snd (adapter_Subscribe_call example_config example_Message example_json
         fresh_broker [] [] example_world)))"
    by (simp add: c)
  ultimately show ?thesis by blast
qed

text \<open>
  C2 at the failing input: the first handler has the empty queue and the second the
  queue y. \<open>Subscribe\<close> does not return \<open>ErrDifferentQueues\<close>: it provisions the broker
  for the queue dev.y, receives, and returns \<open>nil\<close>. With the two handlers in the other
  order it returns \<open>ErrDifferentQueues\<close> and touches nothing.
\<close>

theorem mixed_queues_empty_first:
  "Message_Queue example_Message (Message (example_handler ''A'' [] None)) \<noteq>
     Message_Queue example_Message (Message (example_handler ''B'' ''y'' None)) \<and>
   map_option (apsnd trace)
     (Subscribe (Suc 0) example_config example_Message example_json fresh_broker
        [example_handler ''A'' [] None, example_handler ''B'' ''y'' None] example_world) =
     Some (None,
       [Shutdown_Add, Enter_Subscribe ''dev.y'', Topic_Exists ''dev.y'', CreateTopic ''dev.y'',
        Subscription_Exists ''dev.y'', CreateSubscription ''dev.y'' ''dev.y'',
        Topic_Exists ''dev.dead-letter'', CreateTopic ''dev.dead-letter'',
        Subscription_Exists ''dev.dead-letter'',
        CreateSubscription ''dev.dead-letter'' ''dev.dead-letter'',
        Subscription_Update ''dev.y''
          \<lparr>DeadLetterPolicy_DeadLetterTopic = ''projects/project/topics/dev.dead-letter'',
           DeadLetterPolicy_MaxDeliveryAttempts = 5,
           RetryPolicy_MinimumBackoff = 10000000000,
           RetryPolicy_MaximumBackoff = 300000000000\<rparr>,
        Receive ''dev.y'', Shutdown_Done]) \<and>
   Subscribe (Suc 0) example_config example_Message example_json fresh_broker
      [example_handler ''B'' ''y'' None, example_handler ''A'' [] None] example_world =
     Some (Some ErrDifferentQueues, example_world)"
  by (simp add: example_defs collaborator_defs adapter_defs prefixQueue_def)

section \<open>Provisioning errors\<close>

text \<open>
  C7 at the failing input: the broker refuses the creation of the subscription. The
  error that \<open>createSubscriptionIfNotExists\<close> returns is dropped by \<open>subscription\<close>: the
  adapter's \<open>Subscribe\<close> goes on to the dead-letter chain and the receive loop, and
  returns \<open>nil\<close>.
\<close>

theorem subscription_creation_error_dropped:
  "fst (createSubscriptionIfNotExists refusing_broker ''dev.orders'' ''dev.orders''
      (example_world\<lparr>trace := [Enter_Subscribe ''dev.orders'', Topic_Exists ''dev.orders'',
         CreateTopic ''dev.orders'']\<rparr>)) = Some (BrokerError ''permission denied'') \<and>
   apsnd trace
     (pubsubAdapter_Subscribe example_config example_json refusing_broker ''dev.orders''
        (handleMessage example_Message [example_handler ''order'' ''orders'' None])
        example_world) =
     (None,
      [Enter_Subscribe ''dev.orders'', Topic_Exists ''dev.orders'', CreateTopic ''dev.orders'',
       Subscription_Exists ''dev.orders'', CreateSubscription ''dev.orders'' ''dev.orders'',
       Topic_Exists ''dev.dead-letter'', CreateTopic ''dev.dead-letter'',
       Subscription_Exists ''dev.dead-letter'',
       CreateSubscription ''dev.dead-letter'' ''dev.dead-letter'',
       Subscription_Update ''dev.orders''
         \<lparr>DeadLetterPolicy_DeadLetterTopic = ''projects/project/topics/dev.dead-letter'',
          DeadLetterPolicy_MaxDeliveryAttempts = 5,
          RetryPolicy_MinimumBackoff = 10000000000,
          RetryPolicy_MaximumBackoff = 300000000000\<rparr>,
       Receive ''dev.orders''])"
  by (simp add: example_defs refusing_broker_def collaborator_defs adapter_defs)

section \<open>The names that reach the broker\<close>

lemma named_refl: "memo_ok w \<Longrightarrow> named S w w"
  by (simp add: named_def)

lemma named_trans: "named S w w1 \<Longrightarrow> named S w1 w2 \<Longrightarrow> named S w w2"
  unfolding named_def by (elim conjE exE) (simp, blast)

lemma named_memo_ok: "named S w w' \<Longrightarrow> memo_ok w'"
  by (simp add: named_def)

lemma named_emit: "memo_ok w \<Longrightarrow> queue_names e \<subseteq> S \<Longrightarrow> named S w (emit e w)"
  by (simp add: named_def memo_ok_def emit_def)

lemma named_request:
  "memo_ok w \<Longrightarrow> queue_names e \<subseteq> S \<Longrightarrow> named S w (snd (request B e w))"
  by (simp add: request_def named_emit)

lemma named_request_Exists:
  "memo_ok w \<Longrightarrow> queue_names e \<subseteq> S \<Longrightarrow> named S w (snd (request_Exists B e w))"
  by (simp add: request_Exists_def named_emit)

lemma named_createTopicIfNotExists:
  assumes "memo_ok w" and "t \<in> S"
  shows "named S w (snd (createTopicIfNotExists B t w))"
proof -
  from assms have 1: "named S w (emit (Topic_Exists t) w)"
    by (simp add: named_emit)
  have "named S (emit (Topic_Exists t) w) (emit (CreateTopic t) (emit (Topic_Exists t) w))"
    using assms(2) 1 by (simp add: named_emit named_memo_ok)
  with 1 have "named S w (emit (CreateTopic t) (emit (Topic_Exists t) w))"
    by (rule named_trans)
  with 1 show ?thesis
    by (simp add: createTopicIfNotExists_def request_Exists_def request_def
        split: prod.splits)
qed

lemma named_createSubscriptionIfNotExists:
  assumes "memo_ok w" and "sub \<in> S" and "t \<in> S"
  shows "named S w (snd (createSubscriptionIfNotExists B sub t w))"
proof -
  from assms have 1: "named S w (emit (Subscription_Exists sub) w)"
    by (simp add: named_emit)
  have "named S (emit (Subscription_Exists sub) w)
      (emit (CreateSubscription sub t) (emit (Subscription_Exists sub) w))"
    using assms(2,3) 1 by (simp add: named_emit named_memo_ok)
  with 1 have "named S w (emit (CreateSubscription sub t) (emit (Subscription_Exists sub) w))"
    by (rule named_trans)
  with 1 show ?thesis
    by (simp add: createSubscriptionIfNotExists_def request_Exists_def request_def
        split: prod.splits)
qed

lemma memo_ok_store: "memo_ok w \<Longrightarrow> memo_ok (w\<lparr>topics := (topics w)(queue \<mapsto> queue)\<rparr>)"
  by (simp add: memo_ok_def)

lemma named_store:
  "named S w w1 \<Longrightarrow> named S w (w1\<lparr>topics := (topics w1)(queue \<mapsto> queue)\<rparr>)"
  by (simp add: named_def memo_ok_def)

lemma named_topic:
  assumes "memo_ok w" and "queue \<in> S"
  shows "named S w (snd (topic B queue create w))"
  using assms named_createTopicIfNotExists [OF assms, of B]
  by (auto simp: topic_def named_refl named_store split: option.splits prod.splits)

lemma topic_handle:
  "memo_ok w \<Longrightarrow> topic B queue create w = (Inr t, w1) \<Longrightarrow> t = queue"
  by (auto simp: topic_def memo_ok_def split: option.splits prod.splits if_splits)

lemma named_subscription_Nil:
  assumes "memo_ok w" and "sub \<in> S" and "tname \<in> S"
  shows "named S w (snd (subscription p B sub tname [] w))"
proof (cases "topic B tname True w")
  case (Pair r w1)
  with named_topic [OF assms(1,3), of B True] have 1: "named S w w1" by simp
  show ?thesis
  proof (cases r)
    case (Inl err)
    with Pair 1 show ?thesis by (simp add: subscription_Nil)
  next
    case (Inr tp)
    with Pair assms(1) have "tp = tname" by (simp add: topic_handle)
    with 1 assms have "named S w1 (snd (createSubscriptionIfNotExists B sub tp w1))"
      by (simp add: named_createSubscriptionIfNotExists named_memo_ok)
    with 1 Pair Inr show ?thesis
      by (simp add: subscription_Nil) (rule named_trans)
  qed
qed

lemma named_subscription:
  assumes "memo_ok w" and "sub \<in> S" and "tname \<in> S" and "dl = [] \<or> dl \<in> S"
  shows "named S w (snd (subscription p B sub tname dl w))"
proof (cases "dl = []")
  case True
  with assms show ?thesis by (simp add: named_subscription_Nil)
next
  case False
  with assms(4) have dl: "dl \<in> S" by simp
  obtain r2 w2 where 2: "subscription p B sub tname [] w = (r2, w2)"
    by (cases "subscription p B sub tname [] w")
  with named_subscription_Nil [OF assms(1-3), of p B] have n2: "named S w w2" by simp
  obtain r3 w3 where 3: "subscription p B dl dl [] w2 = (r3, w3)"
    by (cases "subscription p B dl dl [] w2")
  with named_subscription_Nil [OF named_memo_ok [OF n2] dl dl, of p B]
  have "named S w2 w3" by simp
  with n2 have n3: "named S w w3" by (rule named_trans)
  have n4: "named S w w4" if "request B (Subscription_Update sub c) w3 = (x, w4)" for c x w4
  proof -
    have "named S w3 (snd (request B (Subscription_Update sub c) w3))"
      using assms(2) n3 by (simp add: named_request named_memo_ok)
    with that n3 show ?thesis by (auto intro: named_trans)
  qed
  show ?thesis
    using False 2 3 n2 n3 n4
    by (auto simp: subscription_Cons split: sum.splits prod.splits option.splits)
qed

lemma subscription_handle:
  "subscription p B sub tname dl w = (Inr (s, t), w1) \<Longrightarrow> s = sub"
  by (cases "dl = []")
    (auto simp: subscription_Nil subscription_Cons split: sum.splits prod.splits option.splits)

lemma named_handleMessage_from:
  "memo_ok w \<Longrightarrow> named S w (snd (handleMessage_from M i h a w))"
  by (induction h arbitrary: i) (auto simp: named_refl named_emit split: sum.splits)

lemma named_receive_callback:
  assumes "memo_ok w"
  shows "named S w (receive_callback J queue (handleMessage M h) msg w)"
proof -
  have "named S w (emit e w1)" if "handleMessage M h a w = (x, w1)" "queue_names e = {}"
    for e a x w1
  proof -
    from that(1) named_handleMessage_from [OF assms, of S M 0 h a]
    have 1: "named S w w1" by (simp add: handleMessage_def)
    with that(2) have "named S w1 (emit e w1)" by (simp add: named_emit named_memo_ok)
    with 1 show ?thesis by (rule named_trans)
  qed
  with assms show ?thesis
    by (auto simp: receive_callback_def named_emit split: sum.splits prod.splits option.splits)
qed

lemma named_fold_receive_callback:
  "memo_ok w \<Longrightarrow> named S w (fold (receive_callback J queue (handleMessage M h)) msgs w)"
proof (induction msgs arbitrary: w)
  case Nil
  then show ?case by (simp add: named_refl)
next
  case (Cons msg msgs)
  from named_receive_callback [OF Cons.prems]
  have 1: "named S w (receive_callback J queue (handleMessage M h) msg w)" .
  from Cons.IH [OF named_memo_ok [OF 1]] 1 show ?case
    by simp (rule named_trans)
qed

lemma named_pubsubAdapter_Subscribe:
  assumes "memo_ok w" and "queue \<in> S" and "DeadLetterTopic p = [] \<or> DeadLetterTopic p \<in> S"
  shows "named S (emit (Enter_Subscribe queue) w)
     (snd (pubsubAdapter_Subscribe p J B queue (handleMessage M h) w))"
proof -
  let ?w0 = "emit (Enter_Subscribe queue) w"
  from assms(1) have m0: "memo_ok ?w0" by (simp add: memo_ok_def emit_def)
  obtain r w1 where 1: "subscription p B queue queue (DeadLetterTopic p) ?w0 = (r, w1)"
    by (cases "subscription p B queue queue (DeadLetterTopic p) ?w0")
  with named_subscription [OF m0 assms(2) assms(2) assms(3), of p B]
  have n1: "named S ?w0 w1" by simp
  have "named S ?w0
      (fold (receive_callback J queue (handleMessage M h)) msgs (emit (Receive queue) w1))"
    for msgs
  proof -
    from n1 assms(2) have a: "named S w1 (emit (Receive queue) w1)"
      by (simp add: named_emit named_memo_ok)
    from named_fold_receive_callback [OF named_memo_ok [OF a], of S J queue M h msgs]
    have "named S w1
        (fold (receive_callback J queue (handleMessage M h)) msgs (emit (Receive queue) w1))"
      using a by (rule named_trans [rotated])
    with n1 show ?thesis by (rule named_trans)
  qed
  moreover have "s = queue" if "r = Inr (s, t)" for s t
    using 1 that by (auto dest: subscription_handle)
  ultimately show ?thesis
    using 1 n1
    by (auto simp: pubsubAdapter_Subscribe_def Subscription_Receive_def
        split: sum.splits prod.splits)
qed

lemma named_Subscribe:
  "memo_ok w \<Longrightarrow> Subscribe_queue M [] h = Inr queue \<Longrightarrow>
   Subscribe n m M J B h w = Some (r, w') \<Longrightarrow>
   named {prefixQueue m queue, DeadLetterTopic m}
     (emit (Enter_Subscribe (prefixQueue m queue)) (GracefulShutdown_Add w)) w'"
proof (induction n arbitrary: w r w')
  case 0
  then show ?case by simp
next
  case (Suc n)
  let ?S = "{prefixQueue m queue, DeadLetterTopic m}"
  let ?w0 = "GracefulShutdown_Add w"
  let ?we = "emit (Enter_Subscribe (prefixQueue m queue)) ?w0"
  from Suc.prems(1) have m0: "memo_ok ?w0"
    by (simp add: memo_ok_def GracefulShutdown_Add_def emit_def)
  obtain err w1 where 1: "adapter_Subscribe_call m M J B h queue w = (err, w1)"
    by (cases "adapter_Subscribe_call m M J B h queue w")
  with named_pubsubAdapter_Subscribe [OF m0, of "prefixQueue m queue" ?S
      "pubsubAdapter_config m" J B M h]
  have n1: "named ?S ?we w1" by (simp add: pubsubAdapter_config_def)
  have fin: "named ?S ?we (GracefulShutdown_Done w2)" if "named ?S ?we w2" for w2
    using that by (auto simp: named_def memo_ok_def GracefulShutdown_Done_def emit_def)
  show ?case
  proof (cases "err = None \<or> err = ctx_Err B w1 \<or> RestartTimeout m = 0")
    case True
    with Suc.prems 1 fin [OF n1] show ?thesis by (auto split: if_splits)
  next
    case False
    let ?ws = "time_Sleep (RestartTimeout m) w1"
    from False Suc.prems 1 obtain w2 where
      2: "Subscribe n m M J B h ?ws = Some (r, w2)" and w': "w' = GracefulShutdown_Done w2"
      by (auto split: option.splits)
    from n1 have ns: "named ?S ?we ?ws"
      by (auto simp: named_def memo_ok_def time_Sleep_def emit_def)
    then have ms: "memo_ok ?ws" by (rule named_memo_ok)
    from Suc.IH [OF ms Suc.prems(2) 2]
    have "named ?S (emit (Enter_Subscribe (prefixQueue m queue)) (GracefulShutdown_Add ?ws)) w2" .
    moreover have "named ?S ?ws (emit (Enter_Subscribe (prefixQueue m queue))
        (GracefulShutdown_Add ?ws))"
      using ms by (auto simp: named_def memo_ok_def GracefulShutdown_Add_def emit_def)
    ultimately have "named ?S ?ws w2" by (rule named_trans [rotated])
    with ns have "named ?S ?we w2" by (rule named_trans)
    with w' fin show ?thesis by simp
  qed
qed

lemma named_pubsubAdapter_Dispatch:
  assumes "memo_ok w"
  shows "named {Queue a} (emit (Enter_Dispatch a) w) (snd (pubsubAdapter_Dispatch J B a w))"
proof -
  let ?w0 = "emit (Enter_Dispatch a) w"
  from assms have m0: "memo_ok ?w0" by (simp add: memo_ok_def emit_def)
  obtain r w1 where 1: "topic B (Queue a) False ?w0 = (r, w1)"
    by (cases "topic B (Queue a) False ?w0")
  with named_topic [OF m0, of "Queue a" "{Queue a}" B False]
  have n1: "named {Queue a} ?w0 w1" by simp
  have "named {Queue a} ?w0 (snd (request B (Publish t json) w1))" if "r = Inr t" for t json
  proof -
    from 1 that m0 have "t = Queue a" by (simp add: topic_handle)
    then have "named {Queue a} w1 (snd (request B (Publish t json) w1))"
      using n1 by (simp add: named_request named_memo_ok)
    with n1 show ?thesis by (rule named_trans)
  qed
  with 1 n1 m0 show ?thesis
    by (auto simp: pubsubAdapter_Dispatch_def named_refl split: sum.splits prod.splits)
qed

lemma named_adapter_Subscribe_call:
  assumes "memo_ok w"
  shows "named {prefixQueue m queue, DeadLetterTopic m}
     (emit (Enter_Subscribe (prefixQueue m queue)) (GracefulShutdown_Add w))
     (snd (adapter_Subscribe_call m M J B h queue w))"
proof -
  from assms have "memo_ok (GracefulShutdown_Add w)"
    by (simp add: memo_ok_def GracefulShutdown_Add_def emit_def)
  from named_pubsubAdapter_Subscribe [OF this, of "prefixQueue m queue"
      "{prefixQueue m queue, DeadLetterTopic m}" "pubsubAdapter_config m" J B M h]
  show ?thesis by (simp add: pubsubAdapter_config_def)
qed

text \<open>
  C9 (namespacing). \<open>prefixQueue\<close> puts the environment and a dot before the queue. In a
  world whose memo map is as the adapter fills it: when the encoding of \<open>msg\<close> succeeds,
  \<open>Dispatch\<close> enters the adapter with the prefixed queue of \<open>msg\<close>, and every name that
  the adapter then mentions to the broker is that prefixed queue. When the handlers pass
  the first loop with \<open>queue\<close>, \<open>Subscribe\<close> calls the adapter's \<open>Subscribe\<close>, and what it
  returns is decided by what that call returns; the call is entered with the prefixed
  \<open>queue\<close>, every name that the adapter mentions in it is that prefixed queue or the
  configured dead-letter topic, and it leaves the memo map as it should be, also after
  the sleep, so that the same holds of the call that a restart makes, whether or not the
  restarts ever end. For a \<open>Subscribe\<close> that returns, this is said of its whole trace as
  well. The adapter adds no prefix: it uses the names it is given.
\<close>

theorem namespacing:
  assumes "memo_ok w"
  shows "prefixQueue m queue = Environment m @ ''.'' @ queue \<and>
    (\<forall>body. json_Marshal M msg = Inr body \<longrightarrow>
       (\<exists>evs. trace (snd (Dispatch m M J B msg w)) =
            trace w @
              Enter_Dispatch \<lparr>Queue = Environment m @ ''.'' @ Message_Queue M msg,
                 Identifier = Message_Identifier M msg, Body = body\<rparr> # evs \<and>
          (\<forall>e\<in>set evs. queue_names e \<subseteq> {Environment m @ ''.'' @ Message_Queue M msg}))) \<and>
    (Subscribe_queue M [] h = Inr queue \<longrightarrow>
       Subscribe (Suc n) m M J B h w =
         Subscribe_after n m M J B h (adapter_Subscribe_call m M J B h queue w) \<and>
       (\<exists>evs. trace (snd (adapter_Subscribe_call m M J B h queue w)) =
            trace w @ Shutdown_Add # Enter_Subscribe (Environment m @ ''.'' @ queue) # evs \<and>
          (\<forall>e\<in>set evs. queue_names e \<subseteq> {Environment m @ ''.'' @ queue, DeadLetterTopic m})) \<and>
       memo_ok (time_Sleep (RestartTimeout m) (snd (adapter_Subscribe_call m M J B h queue w))) \<and>
       (\<forall>r w'. Subscribe n m M J B h w = Some (r, w') \<longrightarrow>
          (\<exists>evs. trace w' =
               trace w @ Shutdown_Add # Enter_Subscribe (Environment m @ ''.'' @ queue) # evs \<and>
             (\<forall>e\<in>set evs.
                queue_names e \<subseteq> {Environment m @ ''.'' @ queue, DeadLetterTopic m}))))"
proof (intro conjI allI impI)
  show "prefixQueue m queue = Environment m @ ''.'' @ queue"
    by (simp add: prefixQueue_def)
next
  fix body
  assume enc: "json_Marshal M msg = Inr body"
  let ?a = "\<lparr>Queue = Environment m @ ''.'' @ Message_Queue M msg,
      Identifier = Message_Identifier M msg, Body = body\<rparr>"
  from named_pubsubAdapter_Dispatch [OF assms, of ?a J B]
  obtain evs where "trace (snd (pubsubAdapter_Dispatch J B ?a w)) =
      trace (emit (Enter_Dispatch ?a) w) @ evs"
    and "\<forall>e\<in>set evs. queue_names e \<subseteq> {Environment m @ ''.'' @ Message_Queue M msg}"
    by (auto simp: named_def)
  with enc show "\<exists>evs. trace (snd (Dispatch m M J B msg w)) = trace w @ Enter_Dispatch ?a # evs \<and>
      (\<forall>e\<in>set evs. queue_names e \<subseteq> {Environment m @ ''.'' @ Message_Queue M msg})"
    by (intro exI [of _ evs]) (simp add: Dispatch_def prefixQueue_def emit_def)
next
  assume "Subscribe_queue M [] h = Inr queue"
  then show "Subscribe (Suc n) m M J B h w =
      Subscribe_after n m M J B h (adapter_Subscribe_call m M J B h queue w)"
    by (rule Subscribe_unfold)
next
  from named_adapter_Subscribe_call [OF assms, of m queue J B M h]
  obtain evs where "trace (snd (adapter_Subscribe_call m M J B h queue w)) =
      trace (emit (Enter_Subscribe (prefixQueue m queue)) (GracefulShutdown_Add w)) @ evs"
    and "\<forall>e\<in>set evs. queue_names e \<subseteq> {prefixQueue m queue, DeadLetterTopic m}"
    by (auto simp: named_def)
  then show "\<exists>evs. trace (snd (adapter_Subscribe_call m M J B h queue w)) =
      trace w @ Shutdown_Add # Enter_Subscribe (Environment m @ ''.'' @ queue) # evs \<and>
      (\<forall>e\<in>set evs. queue_names e \<subseteq> {Environment m @ ''.'' @ queue, DeadLetterTopic m})"
    by (intro exI [of _ evs]) (simp add: prefixQueue_def emit_def GracefulShutdown_Add_def)
next
  from named_adapter_Subscribe_call [OF assms, of m queue J B M h]
  have "memo_ok (snd (adapter_Subscribe_call m M J B h queue w))"
    by (rule named_memo_ok)
  then show "memo_ok (time_Sleep (RestartTimeout m)
      (snd (adapter_Subscribe_call m M J B h queue w)))"
    by (simp add: memo_ok_def time_Sleep_def emit_def)
next
  fix r w'
  assume "Subscribe_queue M [] h = Inr queue" and "Subscribe n m M J B h w = Some (r, w')"
  with named_Subscribe [OF assms, of M h queue n m J B r w']
  obtain evs where "trace w' =
      trace (emit (Enter_Subscribe (prefixQueue m queue)) (GracefulShutdown_Add w)) @ evs"
    and "\<forall>e\<in>set evs. queue_names e \<subseteq> {prefixQueue m queue, DeadLetterTopic m}"
    by (auto simp: named_def)
  then show "\<exists>evs. trace w' =
      trace w @ Shutdown_Add # Enter_Subscribe (Environment m @ ''.'' @ queue) # evs \<and>
      (\<forall>e\<in>set evs. queue_names e \<subseteq> {Environment m @ ''.'' @ queue, DeadLetterTopic m})"
    by (intro exI [of _ evs]) (simp add: prefixQueue_def emit_def GracefulShutdown_Add_def)
qed

text \<open>
  The environment dev and the queue orders give the broker queue dev.orders, for
  \<open>Dispatch\<close> and for the adapter's \<open>Subscribe\<close> that \<open>Subscribe\<close> calls.
\<close>

theorem namespacing_witness:
  "memo_ok example_world \<and>
   prefixQueue example_config ''orders'' = ''dev.orders'' \<and>
   (\<exists>evs. trace (snd (Dispatch example_config example_Message example_json fresh_broker
          (''order'', ''orders'', ''{}'') example_world)) =
        trace example_world @
          Enter_Dispatch \<lparr>Queue = ''dev.orders'', Identifier = ''order'', Body = ''{}''\<rparr> # evs \<and>
      (\<forall>e\<in>set evs. queue_names e \<subseteq> {''dev.orders''})) \<and>
   (\<exists>evs. trace (snd (adapter_Subscribe_call example_config example_Message example_json
          fresh_broker [example_handler ''order'' ''orders'' None] ''orders'' example_world)) =
        trace example_world @ Shutdown_Add # Enter_Subscribe ''dev.orders'' # evs \<and>
      (\<forall>e\<in>set evs. queue_names e \<subseteq> {''dev.orders'', ''dev.dead-letter''}))"
proof -
  let ?h = "[example_handler ''order'' ''orders'' None]"
  have m: "memo_ok example_world"
    by (simp add: memo_ok_def example_world_def)
  note t = namespacing [OF m, of example_config "''orders''" example_Message
      "(''order'', ''orders'', ''{}'')" example_json fresh_broker ?h 0]
  have enc: "json_Marshal example_Message (''order'', ''orders'', ''{}'') = Inr ''{}''"
    by (simp add: example_Message_def)
  have q: "Subscribe_queue example_Message [] ?h = Inr ''orders''"
    by (simp add: example_defs)
  have c: "Environment example_config = ''dev''" "DeadLetterTopic example_config = ''dev.dead-letter''"
    "Message_Queue example_Message (''order'', ''orders'', ''{}'') = ''orders''"
    "Message_Identifier example_Message (''order'', ''orders'', ''{}'') = ''order''"
    by (simp_all add: example_config_def example_Message_def)
  from t [THEN conjunct1] have "prefixQueue example_config ''orders'' = ''dev.orders''"
    by (simp add: c)
  moreover from t [THEN conjunct2, THEN conjunct1, THEN spec, of "''{}''"] enc
  have "\<exists>evs. trace (snd (Dispatch example_config example_Message example_json fresh_broker
          (''order'', ''orders'', ''{}'') example_world)) =
        trace example_world @
          Enter_Dispatch \<lparr>Queue = ''dev.orders'', Identifier = ''order'', Body = ''{}''\<rparr> # evs \<and>
      (\<forall>e\<in>set evs. queue_names e \<subseteq> {''dev.orders''})"
    by (simp add: c)
  moreover from t [THEN conjunct2, THEN conjunct2, THEN mp, OF q, THEN conjunct2,
      THEN conjunct1]
  have "\<exists>evs. trace (snd (adapter_Subscribe_call example_config example_Message example_json
          fresh_broker ?h ''orders'' example_world)) =
        trace example_world @ Shutdown_Add # Enter_Subscribe ''dev.orders'' # evs \<and>
      (\<forall>e\<in>set evs. queue_names e \<subseteq> {''dev.orders'', ''dev.dead-letter''})"
    by (simp add: c)
  ultimately show ?thesis using m by blast
qed

end
